theory Spec2Isabelle
  imports Main "HOL-Library.AList"
begin

section \<open>Python values\<close>

text \<open>
  The managed connector of \<^verbatim>\<open>src/connectors/managed.py\<close> works on dynamically typed
  values: settings and behaviours decoded from JSON, parsed API responses, rendered
  templates. They are modelled by one datatype. A dict is an association list in
  insertion order; its keys are values themselves, since a dict comprehension of the
  source takes its keys from configuration data. Floating point numbers are left out:
  no branch of the code under study tells them apart from the other values.
\<close>

datatype pyval =
    PNone
  | PBool bool
  | PInt int
  | PStr string
  | PList "pyval list"
  | PDict "(pyval \<times> pyval) list"

text \<open>
  Exceptions are values. The three built-in exceptions are the ones that the dynamic
  operations of the source can raise by themselves; \<open>ExternalError\<close> stands for
  whatever a collaborator outside this file raises (the renderer, the call builder, the
  API executor, the platform connector). The \<open>ManagedConnector...\<close> exceptions are the
  phase-tagged outcomes of the connector.
\<close>

datatype error =
    ConfigError string
  | HTTPError pyval
  | KeyError pyval
  | TypeError
  | AttributeError
  | ExternalError string
  | ManagedConnectorListGetEmptyInBeginningException
  | ManagedConnectorListGetInBeginningException string
  | ManagedConnectorListGetInMiddleException string
  | ManagedConnectorListMaxIterationException string
  | ManagedConnectorDetailsGetException string
  | ManagedConnectorSoftwareGetException string
  | ManagedConnectorSaaSGetException string

text \<open>Truth value testing, as \<^verbatim>\<open>bool(x)\<close>, \<^verbatim>\<open>if x\<close> and \<^verbatim>\<open>not x\<close> do it.\<close>

fun truthy :: "pyval \<Rightarrow> bool" where
  "truthy PNone = False"
| "truthy (PBool b) = b"
| "truthy (PInt i) = (i \<noteq> 0)"
| "truthy (PStr s) = (s \<noteq> [])"
| "truthy (PList xs) = (xs \<noteq> [])"
| "truthy (PDict kvs) = (kvs \<noteq> [])"

fun is_str :: "pyval \<Rightarrow> bool" where
  "is_str (PStr s) = True"
| "is_str v = False"

fun is_dict :: "pyval \<Rightarrow> bool" where
  "is_dict (PDict kvs) = True"
| "is_dict v = False"

text \<open>\<^verbatim>\<open>d.get(k, default)\<close> on a value known to be a dict.\<close>

definition get_default :: "(pyval \<times> pyval) list \<Rightarrow> string \<Rightarrow> pyval \<Rightarrow> pyval" where
  "get_default kvs k d = (case map_of kvs (PStr k) of None \<Rightarrow> d | Some v \<Rightarrow> v)"

text \<open>
  \<^verbatim>\<open>x.get(k, default)\<close> on any value: only a dict has the method, every other value
  of the model raises AttributeError.
\<close>

fun py_get :: "pyval \<Rightarrow> string \<Rightarrow> pyval \<Rightarrow> error + pyval" where
  "py_get (PDict kvs) k d = Inr (get_default kvs k d)"
| "py_get v k d = Inl AttributeError"

text \<open>
  \<^verbatim>\<open>x[k]\<close> with a string key: KeyError on a dict without the key, TypeError on
  every other value (strings and lists want integer indices, the rest is not
  subscriptable).
\<close>

fun py_subscript :: "pyval \<Rightarrow> string \<Rightarrow> error + pyval" where
  "py_subscript (PDict kvs) k =
     (case map_of kvs (PStr k) of None \<Rightarrow> Inl (KeyError (PStr k)) | Some v \<Rightarrow> Inr v)"
| "py_subscript v k = Inl TypeError"

text \<open>\<^verbatim>\<open>k in x\<close> with a string key, for the values on which the source uses it.\<close>

fun py_contains :: "pyval \<Rightarrow> string \<Rightarrow> error + bool" where
  "py_contains (PDict kvs) k = Inr (map_of kvs (PStr k) \<noteq> None)"
| "py_contains (PList xs) k = Inr (PStr k \<in> set xs)"
| "py_contains (PStr s) k =
     Inr (list_ex (\<lambda>n. take (length k) (drop n s) = k) [0..<Suc (length s)])"
| "py_contains v k = Inl TypeError"

text \<open>The items that \<^verbatim>\<open>for entity in x\<close> visits.\<close>

fun py_iter :: "pyval \<Rightarrow> error + pyval list" where
  "py_iter (PList xs) = Inr xs"
| "py_iter (PDict kvs) = Inr (map fst kvs)"
| "py_iter (PStr s) = Inr (map (\<lambda>c. PStr [c]) s)"
| "py_iter v = Inl TypeError"

section \<open>The connector and its authorization loaders\<close>

text \<open>
  The attributes of \<^verbatim>\<open>Connector\<close> that the methods below read or write. The two
  \<open>..._authorization\<close> fields are the entries of \<^verbatim>\<open>self.settings\<close> with these keys;
  \<open>ConnectorID\<close> is kept as the text that an f-string prints for it.
\<close>

record connector =
  ConnectorID :: string
  inputs_from_cloud :: pyval
  saas_authorization :: pyval
  oomnitza_authorization :: pyval
  session_auth_behavior :: pyval
  list_behavior :: pyval
  detail_behavior :: pyval
  software_behavior :: pyval
  saas_behavior :: pyval

definition saas_not_dict_message :: "string \<Rightarrow> string" where
  "saas_not_dict_message cid =
     ''Managed connector #'' @ cid @
     '': Information for the authorization in SaaS must be presented in form of dictionary JSON''"

definition saas_invalid_message :: "string \<Rightarrow> string" where
  "saas_invalid_message cid =
     ''Managed connector #'' @ cid @ '': SaaS authorization format is invalid. Exiting''"

definition oomnitza_invalid_message :: "string \<Rightarrow> string" where
  "oomnitza_invalid_message cid =
     ''Managed connector #'' @ cid @ '': Oomnitza authorization format is invalid. Exiting''"

text \<open>
  The condition of the third branch of \<^verbatim>\<open>saas_authorization_loader\<close>:
  \<^verbatim>\<open>(isinstance(value.get('headers', {}), dict) and value.get('headers')) or
  (isinstance(value.get('params', {}), dict) and value.get('params'))\<close>.
\<close>

definition has_static_secret :: "(pyval \<times> pyval) list \<Rightarrow> bool" where
  "has_static_secret kvs \<longleftrightarrow>
     (is_dict (get_default kvs ''headers'' (PDict [])) \<and> truthy (get_default kvs ''headers'' PNone))
   \<or> (is_dict (get_default kvs ''params'' (PDict [])) \<and> truthy (get_default kvs ''params'' PNone))"

text \<open>
  \<^verbatim>\<open>saas_authorization_loader\<close> after the string case: \<open>value\<close> is what
  \<^verbatim>\<open>json.loads\<close> returned or the setting itself.
\<close>

fun saas_authorization_of_value :: "connector \<Rightarrow> pyval \<Rightarrow> error + connector" where
  "saas_authorization_of_value c (PDict kvs) =
     (if is_str (get_default kvs ''credential_id'' PNone) then
        Inr (c\<lparr>saas_authorization :=
                 PDict [(PStr ''credential_id'', get_default kvs ''credential_id'' PNone)]\<rparr>)
      else if get_default kvs ''type'' PNone = PStr ''session'' then
        (case py_subscript (PDict kvs) ''behavior'' of
           Inl e \<Rightarrow> Inl e
         | Inr b \<Rightarrow> Inr (c\<lparr>saas_authorization := PDict [], session_auth_behavior := b\<rparr>))
      else if has_static_secret kvs then
        Inr (c\<lparr>saas_authorization :=
                 PDict [(PStr ''headers'', get_default kvs ''headers'' (PDict [])),
                        (PStr ''params'', get_default kvs ''params'' (PDict []))]\<rparr>)
      else Inl (ConfigError (saas_invalid_message (ConnectorID c))))"
| "saas_authorization_of_value c v = Inl (ConfigError (saas_not_dict_message (ConnectorID c)))"

text \<open>
  \<^verbatim>\<open>saas_authorization_loader\<close>. \<open>json_loads\<close> is the standard library's parser, a
  parameter: it returns the decoded value or raises.
\<close>

definition saas_authorization_loader ::
  "(string \<Rightarrow> error + pyval) \<Rightarrow> connector \<Rightarrow> error + connector" where
  "saas_authorization_loader json_loads c =
     (case saas_authorization c of
        PStr s \<Rightarrow>
          (case json_loads s of
             Inl e \<Rightarrow> Inl e
           | Inr v \<Rightarrow> saas_authorization_of_value c v)
      | v \<Rightarrow> saas_authorization_of_value c v)"

text \<open>
  \<^verbatim>\<open>oomnitza_authorization_loader\<close>. \<open>api_token\<close> is
  \<^verbatim>\<open>self.OomnitzaConnector.settings['api_token']\<close>, the token of the platform's own
  section.
\<close>

definition oomnitza_authorization_loader :: "pyval \<Rightarrow> connector \<Rightarrow> error + connector" where
  "oomnitza_authorization_loader api_token c =
     (let v = oomnitza_authorization c in
      if is_str v \<and> truthy v then Inr c
      else if \<not> truthy v then Inr (c\<lparr>oomnitza_authorization := api_token\<rparr>)
      else
        (case v of
           PDict kvs \<Rightarrow>
             (if truthy (get_default kvs ''token_id'' PNone) then
                Inr (c\<lparr>oomnitza_authorization :=
                         PDict [(PStr ''token_id'', get_default kvs ''token_id'' PNone)]\<rparr>)
              else Inl (ConfigError (oomnitza_invalid_message (ConnectorID c))))
         | _ \<Rightarrow> Inl (ConfigError (oomnitza_invalid_message (ConnectorID c)))))"

section \<open>Collaborators and the rendering context\<close>

text \<open>Sequencing of computations that may raise, without and with state.\<close>

definition and_then :: "error + 'a \<Rightarrow> ('a \<Rightarrow> error + 'b) \<Rightarrow> error + 'b" where
  "and_then r f = (case r of Inl e \<Rightarrow> Inl e | Inr v \<Rightarrow> f v)"

definition and_then_st ::
  "(error + 'a) \<times> 's \<Rightarrow> ('a \<Rightarrow> 's \<Rightarrow> (error + 'b) \<times> 's) \<Rightarrow> (error + 'b) \<times> 's" where
  "and_then_st m f = (case m of (Inl e, s) \<Rightarrow> (Inl e, s) | (Inr v, s) \<Rightarrow> f v s)"

type_synonym ctx = "string \<rightharpoonup> pyval"

text \<open>
  Modelled from the spec: \<^verbatim>\<open>update_rendering_context\<close>, a method of
  \<^verbatim>\<open>lib.api_caller.ConfigurableExternalAPICaller\<close>, which is not among the sources.
  The spec describes the Rendering Context as a mapping from name to value whose keys
  are added or overwritten.
\<close>

definition update_rendering_context :: "ctx \<Rightarrow> (string \<times> pyval) list \<Rightarrow> ctx" where
  "update_rendering_context ctx kvs = ctx ++ map_of kvs"

text \<open>
  Modelled from the spec: \<^verbatim>\<open>clear_rendering_context\<close>, a method of the same
  class. The spec has keys of the Rendering Context selectively cleared when their
  validity ends, after which they are absent.
\<close>

definition clear_rendering_context :: "ctx \<Rightarrow> string list \<Rightarrow> ctx" where
  "clear_rendering_context ctx ks = (\<lambda>k. if k \<in> set ks then None else ctx k)"

text \<open>
  Modelled from the spec: the Call Specification of the spec's data model, a record of
  method, url, headers mapping, params mapping and optional TLS adapter (the call
  builder that makes it is not among the sources). \<open>ssl_adapter\<close> is \<open>PNone\<close> for
  \<^verbatim>\<open>None\<close>.
\<close>

record call_spec =
  http_method :: pyval
  url :: pyval
  headers :: "(pyval \<times> pyval) list"
  params :: "(pyval \<times> pyval) list"
  ssl_adapter :: pyval

text \<open>What the source reads of a response: \<^verbatim>\<open>.text\<close>, \<^verbatim>\<open>.headers\<close>, \<^verbatim>\<open>.links\<close>.\<close>

record response =
  resp_text :: string
  resp_headers :: pyval
  resp_links :: pyval

text \<open>
  The collaborators, as parameters. The call builder and the renderer read the
  rendering context and are pure; the API executor and the platform connector act on an
  outside world of type \<open>'w\<close>, which they may change and on which their answers may
  depend. \<open>exc_str\<close> is \<^verbatim>\<open>str(exc)\<close>.
\<close>

record 'w env =
  build_call_specs :: "ctx \<Rightarrow> pyval \<Rightarrow> error + call_spec"
  render_to_native :: "ctx \<Rightarrow> pyval \<Rightarrow> error + pyval"
  render_to_string :: "ctx \<Rightarrow> pyval \<Rightarrow> error + string"
  perform_api_request :: "call_spec \<Rightarrow> 'w \<Rightarrow> (error + response) \<times> 'w"
  response_to_object :: "string \<Rightarrow> error + pyval"
  get_secret_by_credential_id :: "pyval \<Rightarrow> call_spec \<Rightarrow> 'w \<Rightarrow> (error + pyval) \<times> 'w"
  get_aws_session_secret :: "call_spec \<Rightarrow> pyval \<Rightarrow> 'w \<Rightarrow> (error + pyval) \<times> 'w"
  init_mtls_ssl_adapter :: "pyval \<Rightarrow> error + pyval"
  exc_str :: "error \<Rightarrow> string"

section \<open>Dict comprehension and keyword update\<close>

fun hashable :: "pyval \<Rightarrow> bool" where
  "hashable (PList xs) = False"
| "hashable (PDict kvs) = False"
| "hashable v = True"

text \<open>
  \<^verbatim>\<open>{_["key"]: render(_["value"]) for _ in items}\<close>: for each item the key is
  evaluated, then the value, then the pair is stored; a key stored twice keeps its
  first position and takes the last value.
\<close>

fun render_pairs ::
  "(pyval \<Rightarrow> error + string) \<Rightarrow> pyval list \<Rightarrow> (pyval \<times> pyval) list \<Rightarrow> error + (pyval \<times> pyval) list" where
  "render_pairs r [] acc = Inr acc"
| "render_pairs r (x # xs) acc =
     and_then (py_subscript x ''key'') (\<lambda>k.
     and_then (py_subscript x ''value'') (\<lambda>v.
     and_then (r v) (\<lambda>s.
       if hashable k then render_pairs r xs (AList.update k (PStr s) acc)
       else Inl TypeError)))"

definition dict_comprehension :: "(pyval \<Rightarrow> error + string) \<Rightarrow> pyval \<Rightarrow> error + pyval" where
  "dict_comprehension r items =
     and_then (py_iter items) (\<lambda>xs.
     and_then (render_pairs r xs []) (\<lambda>kvs. Inr (PDict kvs)))"

text \<open>\<^verbatim>\<open>d.update(**x)\<close>: \<open>x\<close> has to be a mapping whose keys are strings.\<close>

definition update_kwargs :: "(pyval \<times> pyval) list \<Rightarrow> pyval \<Rightarrow> error + (pyval \<times> pyval) list" where
  "update_kwargs d x =
     (case x of
        PDict kvs \<Rightarrow>
          if list_all (\<lambda>kv. is_str (fst kv)) kvs
          then Inr (fold (\<lambda>kv. AList.update (fst kv) (snd kv)) kvs d)
          else Inl TypeError
      | _ \<Rightarrow> Inl TypeError)"

section \<open>Authorization of a request\<close>

text \<open>
  The two comprehensions of \<^verbatim>\<open>generate_session_based_secret\<close>, over
  \<^verbatim>\<open>self.session_auth_behavior["result"].get(part, [])\<close>.
\<close>

definition session_result_part :: "'w env \<Rightarrow> connector \<Rightarrow> ctx \<Rightarrow> string \<Rightarrow> error + pyval" where
  "session_result_part env c ctx part =
     and_then (py_subscript (session_auth_behavior c) ''result'') (\<lambda>res.
     and_then (py_get res part (PList [])) (\<lambda>items.
       dict_comprehension (render_to_string env ctx) items))"

definition generate_session_based_secret ::
  "'w env \<Rightarrow> connector \<Rightarrow> ctx \<times> 'w \<Rightarrow> (error + pyval) \<times> (ctx \<times> 'w)" where
  "generate_session_based_secret env c st =
     (case build_call_specs env (fst st) (session_auth_behavior c) of
        Inl e \<Rightarrow> (Inl e, st)
      | Inr api_call_specification \<Rightarrow>
          (case perform_api_request env api_call_specification (snd st) of
             (Inl e, w1) \<Rightarrow> (Inl e, (fst st, w1))
           | (Inr resp, w1) \<Rightarrow>
               (case response_to_object env (resp_text resp) of
                  Inl e \<Rightarrow> (Inl e, (fst st, w1))
                | Inr obj \<Rightarrow>
                    (let ctx1 = update_rendering_context (fst st)
                                  [(''response'', obj), (''response_headers'', resp_headers resp)]
                     in case session_result_part env c ctx1 ''headers'' of
                          Inl e \<Rightarrow> (Inl e, (ctx1, w1))
                        | Inr auth_headers \<Rightarrow>
                            (case session_result_part env c ctx1 ''params'' of
                               Inl e \<Rightarrow> (Inl e, (ctx1, w1))
                             | Inr auth_params \<Rightarrow>
                                 (Inr (PDict [(PStr ''headers'', auth_headers),
                                              (PStr ''params'', auth_params)]),
                                  (clear_rendering_context ctx1 [''response'', ''response_headers''],
                                   w1)))))))"

text \<open>\<^verbatim>\<open>secret['headers'], secret['params'], ssl_adapter\<close>.\<close>

definition secret_parts :: "pyval \<Rightarrow> pyval \<Rightarrow> error + (pyval \<times> pyval \<times> pyval)" where
  "secret_parts secret adapter =
     and_then (py_subscript secret ''headers'') (\<lambda>h.
     and_then (py_subscript secret ''params'') (\<lambda>p. Inr (h, p, adapter)))"

definition attach_saas_authorization ::
  "'w env \<Rightarrow> connector \<Rightarrow> call_spec \<Rightarrow> ctx \<times> 'w \<Rightarrow> (error + (pyval \<times> pyval \<times> pyval)) \<times> (ctx \<times> 'w)" where
  "attach_saas_authorization env c api_call_specification st =
     (case py_get (saas_authorization c) ''credential_id'' PNone of
        Inl e \<Rightarrow> (Inl e, st)
      | Inr credential_id \<Rightarrow>
          if truthy credential_id then
            (case get_secret_by_credential_id env credential_id api_call_specification (snd st) of
               (Inl e, w1) \<Rightarrow> (Inl e, (fst st, w1))
             | (Inr secret, w1) \<Rightarrow>
                 (and_then (py_subscript secret ''certificates'') (\<lambda>certs.
                  and_then (if truthy certs then init_mtls_ssl_adapter env certs else Inr PNone)
                    (\<lambda>adapter. secret_parts secret adapter)),
                  (fst st, w1)))
          else if truthy (session_auth_behavior c) then
            and_then_st (generate_session_based_secret env c st)
              (\<lambda>secret st1. (secret_parts secret PNone, st1))
          else (secret_parts (saas_authorization c) PNone, st))"

text \<open>
  The three lines that follow every call of \<^verbatim>\<open>attach_saas_authorization\<close>:
  the secret's headers and params are merged into the call specification and the
  adapter is stored.
\<close>

definition apply_authorization :: "call_spec \<Rightarrow> pyval \<times> pyval \<times> pyval \<Rightarrow> error + call_spec" where
  "apply_authorization spec auth =
     (case auth of (auth_headers, auth_params, adapter) \<Rightarrow>
        and_then (update_kwargs (headers spec) auth_headers) (\<lambda>h.
        and_then (update_kwargs (params spec) auth_params) (\<lambda>p.
          Inr (spec\<lparr>headers := h, params := p, ssl_adapter := adapter\<rparr>))))"

section \<open>The pagination engine\<close>

definition MAX_ITERATIONS :: nat where
  "MAX_ITERATIONS = 1000"

text \<open>The controls that \<^verbatim>\<open>get_list_of_items\<close> pulls out of the list behaviour.\<close>

record controls =
  pagination_dict :: pyval
  break_early_control :: pyval
  add_if_control :: pyval
  result_control :: pyval

text \<open>
  The pagination block of the loop body. \<open>None\<close> is the \<^verbatim>\<open>break\<close> of the break-early
  check; otherwise the call specification comes back, with the extra headers and params
  merged in when the add-if control renders true.
\<close>

definition pagination_extras ::
  "'w env \<Rightarrow> ctx \<Rightarrow> controls \<Rightarrow> call_spec \<Rightarrow> error + call_spec option" where
  "pagination_extras env ctx k spec =
     (if truthy (pagination_dict k) then
        and_then (render_to_native env ctx (break_early_control k)) (\<lambda>break_early.
          if truthy break_early then Inr None
          else
            and_then (render_to_native env ctx (add_if_control k)) (\<lambda>add_if.
              if truthy add_if then
                and_then (py_get (pagination_dict k) ''headers'' (PList [])) (\<lambda>hs.
                and_then (dict_comprehension (render_to_string env ctx) hs) (\<lambda>extra_headers.
                and_then (py_get (pagination_dict k) ''params'' (PList [])) (\<lambda>ps.
                and_then (dict_comprehension (render_to_string env ctx) ps) (\<lambda>extra_params.
                and_then (update_kwargs (headers spec) extra_headers) (\<lambda>h.
                and_then (update_kwargs (params spec) extra_params) (\<lambda>p.
                  Inr (Some (spec\<lparr>headers := h, params := p\<rparr>))))))))
              else Inr (Some spec)))
      else Inr (Some spec))"

text \<open>
  The authorization of a list request: from the rotating credential set when one is
  given (its keys are merged into a copy of the call specification, which goes to the
  platform connector; no adapter), else by \<^verbatim>\<open>attach_saas_authorization\<close>.
\<close>

definition list_authorization ::
  "'w env \<Rightarrow> connector \<Rightarrow> pyval \<Rightarrow> call_spec \<Rightarrow> ctx \<times> 'w \<Rightarrow>
   (error + (pyval \<times> pyval \<times> pyval)) \<times> (ctx \<times> 'w)" where
  "list_authorization env c iam_credentials spec st =
     (if truthy iam_credentials then
        (case update_kwargs [] iam_credentials of
           Inl e \<Rightarrow> (Inl e, st)
         | Inr kwargs \<Rightarrow>
             (case get_aws_session_secret env spec iam_credentials (snd st) of
                (Inl e, w1) \<Rightarrow> (Inl e, (fst st, w1))
              | (Inr iam_session_secret, w1) \<Rightarrow>
                  (secret_parts iam_session_secret PNone, (fst st, w1))))
      else attach_saas_authorization env c spec st)"

text \<open>
  \<^verbatim>\<open>if list_response and "shim_error_message" in list_response: raise HTTPError(...)\<close>
\<close>

definition shim_check :: "pyval \<Rightarrow> error + unit" where
  "shim_check list_response =
     (if truthy list_response then
        and_then (py_contains list_response ''shim_error_message'') (\<lambda>found.
          if found then
            and_then (py_subscript list_response ''shim_error_message'') (\<lambda>m. Inl (HTTPError m))
          else Inr ())
      else Inr ())"

text \<open>From the authorization to the parsed, shim-checked response of one list request.\<close>

definition fetch_list_response ::
  "'w env \<Rightarrow> connector \<Rightarrow> pyval \<Rightarrow> call_spec \<Rightarrow> ctx \<times> 'w \<Rightarrow>
   (error + (response \<times> pyval)) \<times> (ctx \<times> 'w)" where
  "fetch_list_response env c iam_credentials spec st =
     and_then_st (list_authorization env c iam_credentials spec st) (\<lambda>auth st1.
       case apply_authorization spec auth of
         Inl e \<Rightarrow> (Inl e, st1)
       | Inr spec1 \<Rightarrow>
           (case perform_api_request env spec1 (snd st1) of
              (Inl e, w2) \<Rightarrow> (Inl e, (fst st1, w2))
            | (Inr resp, w2) \<Rightarrow>
                (and_then (response_to_object env (resp_text resp)) (\<lambda>list_response.
                 and_then (shim_check list_response) (\<lambda>u. Inr (resp, list_response))),
                 (fst st1, w2))))"

text \<open>
  One pass through the loop body, up to the rendered \<^verbatim>\<open>result\<close>: the body broke
  early, raised, or has a page in hand.
\<close>

datatype 'w page =
    BreakEarly
  | PageError error "ctx \<times> 'w"
  | Page pyval "ctx \<times> 'w"

definition list_iteration ::
  "'w env \<Rightarrow> connector \<Rightarrow> controls \<Rightarrow> pyval \<Rightarrow> ctx \<times> 'w \<Rightarrow> 'w page" where
  "list_iteration env c k iam_credentials st =
     (case and_then (build_call_specs env (fst st) (list_behavior c))
             (pagination_extras env (fst st) k) of
        Inl e \<Rightarrow> PageError e st
      | Inr None \<Rightarrow> BreakEarly
      | Inr (Some spec) \<Rightarrow>
          (case fetch_list_response env c iam_credentials spec st of
             (Inl e, st2) \<Rightarrow> PageError e st2
           | (Inr (resp, list_response), st2) \<Rightarrow>
               (let ctx3 = update_rendering_context (fst st2)
                             [(''list_response'', list_response),
                              (''list_response_headers'', resp_headers resp),
                              (''list_response_links'', resp_links resp)]
                in case render_to_native env ctx3 (result_control k) of
                     Inl e \<Rightarrow> PageError e (ctx3, snd st2)
                   | Inr result \<Rightarrow> Page result (ctx3, snd st2))))"

text \<open>
  A run of a generator to its end: the items it handed out in order, the exception that
  ended it if one did, and the state it left. For the pagination loop, \<open>bodies\<close> counts
  how many times the body of the \<^verbatim>\<open>while\<close> loop was entered.
\<close>

record ('o, 'w) run =
  emitted :: "'o list"
  raised :: "error option"
  final :: "ctx \<times> 'w"

record ('o, 'w) paged_run = "('o, 'w) run" +
  bodies :: nat

text \<open>The two \<^verbatim>\<open>except\<close> clauses of \<^verbatim>\<open>get_list_of_items\<close>.\<close>

definition classify :: "'w env \<Rightarrow> nat \<Rightarrow> error \<Rightarrow> error" where
  "classify env iteration exc =
     (if exc = ManagedConnectorListGetEmptyInBeginningException then exc
      else if iteration = 0 then ManagedConnectorListGetInBeginningException (exc_str env exc)
      else ManagedConnectorListGetInMiddleException (exc_str env exc))"

text \<open>
  The generator is suspended at each \<^verbatim>\<open>yield\<close> while its consumer works on the
  item; what the consumer does to the rendering context and to the world is in place
  when the generator goes on. \<open>consume\<close> is that work: it turns the item into what the
  consumer hands on and the state into the state it leaves. When the consumer raises,
  the exception leaves through the consumer's frame: the generator is never resumed
  and neither of its \<^verbatim>\<open>except\<close> clauses sees the exception.
\<close>

definition list_start :: "ctx \<times> 'w \<Rightarrow> ctx \<times> 'w" where
  "list_start st =
     (update_rendering_context (fst st)
        [(''iteration'', PInt 0), (''list_response'', PDict []),
         (''list_response_headers'', PDict []), (''list_response_links'', PDict [])],
      snd st)"

definition set_iteration :: "nat \<Rightarrow> ctx \<times> 'w \<Rightarrow> ctx \<times> 'w" where
  "set_iteration iteration st =
     (update_rendering_context (fst st) [(''iteration'', PInt (int iteration))], snd st)"

fun consume_all ::
  "(pyval \<Rightarrow> 's \<Rightarrow> (error + 'o) \<times> 's) \<Rightarrow> pyval list \<Rightarrow> 's \<Rightarrow> 'o list \<times> error option \<times> 's" where
  "consume_all consume [] s = ([], None, s)"
| "consume_all consume (x # xs) s =
     (case consume x s of
        (Inl e, s1) \<Rightarrow> ([], Some e, s1)
      | (Inr out, s1) \<Rightarrow>
          (case consume_all consume xs s1 of (outs, exc, s2) \<Rightarrow> (out # outs, exc, s2)))"

function pagination_loop ::
  "'w env \<Rightarrow> connector \<Rightarrow> controls \<Rightarrow> (pyval \<Rightarrow> ctx \<times> 'w \<Rightarrow> (error + 'o) \<times> (ctx \<times> 'w)) \<Rightarrow>
   pyval \<Rightarrow> bool \<Rightarrow> nat \<Rightarrow> ctx \<times> 'w \<Rightarrow> ('o, 'w) paged_run" where
  "pagination_loop env c k consume iam_credentials skip_empty_response iteration st =
     (if iteration < MAX_ITERATIONS then
        (case list_iteration env c k iam_credentials st of
           BreakEarly \<Rightarrow> \<lparr>emitted = [], raised = None, final = st, bodies = 1\<rparr>
         | PageError e st1 \<Rightarrow>
             \<lparr>emitted = [], raised = Some (classify env iteration e), final = st1, bodies = 1\<rparr>
         | Page result st1 \<Rightarrow>
             if \<not> truthy result then
               (if iteration = 0 \<and> \<not> skip_empty_response then
                  \<lparr>emitted = [],
                   raised = Some ManagedConnectorListGetEmptyInBeginningException,
                   final = st1, bodies = 1\<rparr>
                else \<lparr>emitted = [], raised = None, final = st1, bodies = 1\<rparr>)
             else
               (case py_iter result of
                  Inl e \<Rightarrow>
                    \<lparr>emitted = [], raised = Some (classify env iteration e),
                     final = st1, bodies = 1\<rparr>
                | Inr entities \<Rightarrow>
                    (case consume_all consume entities st1 of
                       (outs, Some e, st2) \<Rightarrow>
                         \<lparr>emitted = outs, raised = Some e, final = st2, bodies = 1\<rparr>
                     | (outs, None, st2) \<Rightarrow>
                         (let r = pagination_loop env c k consume iam_credentials
                                    skip_empty_response (Suc iteration)
                                    (set_iteration (Suc iteration) st2)
                          in r\<lparr>emitted := outs @ emitted r, bodies := Suc (bodies r)\<rparr>))))
      else
        \<lparr>emitted = [],
         raised = Some (ManagedConnectorListMaxIterationException ''Reached max iterations''),
         final = st, bodies = 0\<rparr>)"
  by pat_completeness auto
termination
  by (relation "measure (\<lambda>(env, c, k, consume, iam, skip, iteration, st).
                  MAX_ITERATIONS - iteration)") auto

declare pagination_loop.simps [simp del]

definition read_controls :: "connector \<Rightarrow> error + controls" where
  "read_controls c =
     and_then (py_get (list_behavior c) ''pagination'' (PDict [])) (\<lambda>pd.
     and_then (py_get pd ''break_early'' PNone) (\<lambda>be.
     and_then (py_get pd ''add_if'' PNone) (\<lambda>ai.
     and_then (py_get (list_behavior c) ''result'' PNone) (\<lambda>rc.
       Inr \<lparr>pagination_dict = pd, break_early_control = be,
            add_if_control = ai, result_control = rc\<rparr>))))"

definition get_list_of_items ::
  "'w env \<Rightarrow> connector \<Rightarrow> (pyval \<Rightarrow> ctx \<times> 'w \<Rightarrow> (error + 'o) \<times> (ctx \<times> 'w)) \<Rightarrow>
   pyval \<Rightarrow> bool \<Rightarrow> ctx \<times> 'w \<Rightarrow> ('o, 'w) paged_run" where
  "get_list_of_items env c consume iam_credentials skip_empty_response st =
     (case read_controls c of
        Inl e \<Rightarrow>
          \<lparr>emitted = [], raised = Some (classify env 0 e), final = list_start st, bodies = 0\<rparr>
      | Inr k \<Rightarrow>
          pagination_loop env c k consume iam_credentials skip_empty_response 0 (list_start st))"

text \<open>The consumer that takes each item as it is and touches nothing.\<close>

definition hand_over :: "pyval \<Rightarrow> 's \<Rightarrow> (error + pyval) \<times> 's" where
  "hand_over entity s = (Inr entity, s)"

text \<open>
  For the statements about runs: \<open>full_pages \<dots> i n st\<close> goes through \<open>n\<close> bodies of the
  loop from iteration \<open>i\<close> and state \<open>st\<close>, as long as each of them has a page with
  records in hand, all of which the consumer takes. It returns what was emitted and the
  state at the head of the next body, or \<open>None\<close> when one of the \<open>n\<close> bodies ends the
  loop.
\<close>

fun full_pages ::
  "'w env \<Rightarrow> connector \<Rightarrow> controls \<Rightarrow> (pyval \<Rightarrow> ctx \<times> 'w \<Rightarrow> (error + 'o) \<times> (ctx \<times> 'w)) \<Rightarrow>
   pyval \<Rightarrow> nat \<Rightarrow> nat \<Rightarrow> ctx \<times> 'w \<Rightarrow> ('o list \<times> (ctx \<times> 'w)) option" where
  "full_pages env c k consume iam_credentials i 0 st = Some ([], st)"
| "full_pages env c k consume iam_credentials i (Suc n) st =
     (case list_iteration env c k iam_credentials st of
        Page result st1 \<Rightarrow>
          if truthy result then
            (case py_iter result of
               Inr entities \<Rightarrow>
                 (case consume_all consume entities st1 of
                    (outs, None, st2) \<Rightarrow>
                      (case full_pages env c k consume iam_credentials (Suc i) n
                              (set_iteration (Suc i) st2) of
                         Some (later, st3) \<Rightarrow> Some (outs @ later, st3)
                       | None \<Rightarrow> None)
                  | (outs, Some e, st2) \<Rightarrow> None)
             | Inl e \<Rightarrow> None)
          else None
      | _ \<Rightarrow> None)"

section \<open>The record enricher\<close>

text \<open>
  The request sequence that the detail fetch and the software endpoint share: build the
  call specification of a behaviour, attach the authorization, execute, parse.
\<close>

definition call_endpoint ::
  "'w env \<Rightarrow> connector \<Rightarrow> pyval \<Rightarrow> ctx \<times> 'w \<Rightarrow> (error + pyval) \<times> (ctx \<times> 'w)" where
  "call_endpoint env c behavior st =
     (case build_call_specs env (fst st) behavior of
        Inl e \<Rightarrow> (Inl e, st)
      | Inr api_call_specification \<Rightarrow>
          and_then_st (attach_saas_authorization env c api_call_specification st) (\<lambda>auth st1.
            case apply_authorization api_call_specification auth of
              Inl e \<Rightarrow> (Inl e, st1)
            | Inr spec1 \<Rightarrow>
                (case perform_api_request env spec1 (snd st1) of
                   (Inl e, w2) \<Rightarrow> (Inl e, (fst st1, w2))
                 | (Inr resp, w2) \<Rightarrow>
                     (response_to_object env (resp_text resp), (fst st1, w2)))))"

text \<open>
  \<^verbatim>\<open>if type(detail_response_object) is dict:
      detail_response_object['list_response_item'] = list_response_item\<close>
\<close>

fun keep_list_response_item :: "pyval \<Rightarrow> pyval \<Rightarrow> pyval" where
  "keep_list_response_item (PDict kvs) list_response_item =
     PDict (AList.update (PStr ''list_response_item'') list_response_item kvs)"
| "keep_list_response_item detail_response_object list_response_item = detail_response_object"

definition get_detail_of_item ::
  "'w env \<Rightarrow> connector \<Rightarrow> pyval \<Rightarrow> ctx \<times> 'w \<Rightarrow> (error + pyval) \<times> (ctx \<times> 'w)" where
  "get_detail_of_item env c list_response_item st =
     (if truthy (detail_behavior c) then
        (case call_endpoint env c (detail_behavior c)
                (update_rendering_context (fst st) [(''list_response_item'', list_response_item)],
                 snd st) of
           (Inl exc, st1) \<Rightarrow> (Inl (ManagedConnectorDetailsGetException (exc_str env exc)), st1)
         | (Inr detail_response_object, st1) \<Rightarrow>
             (Inr (keep_list_response_item detail_response_object list_response_item), st1))
      else (Inr list_response_item, st))"

text \<open>\<^verbatim>\<open>x[k] = v\<close> with a string key: only a dict takes it.\<close>

fun py_setitem :: "pyval \<Rightarrow> string \<Rightarrow> pyval \<Rightarrow> error + pyval" where
  "py_setitem (PDict kvs) k v = Inr (PDict (AList.update (PStr k) v kvs))"
| "py_setitem x k v = Inl TypeError"

text \<open>
  \<^verbatim>\<open>self.software_behavior is not None and self.software_behavior.get('enabled')\<close>
\<close>

definition software_enabled :: "connector \<Rightarrow> error + bool" where
  "software_enabled c =
     (if software_behavior c = PNone then Inr False
      else and_then (py_get (software_behavior c) ''enabled'' PNone) (\<lambda>v. Inr (truthy v)))"

definition get_software_response ::
  "'w env \<Rightarrow> connector \<Rightarrow> pyval \<Rightarrow> ctx \<times> 'w \<Rightarrow> (error + pyval) \<times> (ctx \<times> 'w)" where
  "get_software_response env c default_response st =
     (case and_then (py_get (software_behavior c) ''url'' PNone) (\<lambda>u.
             if truthy u then py_get (software_behavior c) ''http_method'' PNone else Inr u) of
        Inl e \<Rightarrow> (Inl e, st)
      | Inr valid_api_spec \<Rightarrow>
          if truthy valid_api_spec then call_endpoint env c (software_behavior c) st
          else (Inr default_response, st))"

text \<open>The dict that \<^verbatim>\<open>_build_list_of_software\<close> appends for one item.\<close>

definition software_entry :: "'w env \<Rightarrow> pyval \<Rightarrow> ctx \<Rightarrow> error + pyval" where
  "software_entry env behavior ctx =
     and_then (and_then (py_subscript behavior ''name'') (render_to_native env ctx)) (\<lambda>name.
     and_then (and_then (py_subscript behavior ''version'') (render_to_native env ctx)) (\<lambda>native.
     and_then (if native \<noteq> PNone
               then and_then (and_then (py_subscript behavior ''version'') (render_to_string env ctx))
                      (\<lambda>s. Inr (PStr s))
               else Inr PNone) (\<lambda>version.
       Inr (PDict [(PStr ''name'', name), (PStr ''version'', version), (PStr ''path'', PNone)]))))"

fun software_entries ::
  "'w env \<Rightarrow> pyval \<Rightarrow> pyval list \<Rightarrow> ctx \<Rightarrow> (error + pyval list) \<times> ctx" where
  "software_entries env behavior [] ctx = (Inr [], ctx)"
| "software_entries env behavior (x # xs) ctx =
     (let ctx1 = update_rendering_context ctx [(''software_response_item'', x)]
      in case software_entry env behavior ctx1 of
           Inl e \<Rightarrow> (Inl e, ctx1)
         | Inr entry \<Rightarrow>
             (case software_entries env behavior xs ctx1 of
                (Inl e, ctx2) \<Rightarrow> (Inl e, ctx2)
              | (Inr entries, ctx2) \<Rightarrow> (Inr (entry # entries), ctx2)))"

definition build_list_of_software ::
  "'w env \<Rightarrow> connector \<Rightarrow> pyval \<Rightarrow> ctx \<Rightarrow> (error + pyval list) \<times> ctx" where
  "build_list_of_software env c software_response ctx =
     (let ctx1 = update_rendering_context ctx [(''software_response'', software_response)]
      in case and_then (and_then (py_subscript (software_behavior c) ''result'')
                          (render_to_native env ctx1)) py_iter of
           Inl e \<Rightarrow> (Inl e, ctx1)
         | Inr xs \<Rightarrow> software_entries env (software_behavior c) xs ctx1)"

definition add_list_of_software :: "pyval \<Rightarrow> pyval list \<Rightarrow> error + pyval" where
  "add_list_of_software item_details software_list =
     (if software_list \<noteq> [] then py_setitem item_details ''software'' (PList software_list)
      else Inr item_details)"

text \<open>
  The body of the \<^verbatim>\<open>try\<close> of \<^verbatim>\<open>_add_desktop_software\<close>. The source changes
  \<open>item_details\<close> in place, in its last statement; the model returns the changed value,
  and an exception means that the value is as it was.
\<close>

definition add_desktop_software_body ::
  "'w env \<Rightarrow> connector \<Rightarrow> pyval \<Rightarrow> ctx \<times> 'w \<Rightarrow> (error + pyval) \<times> (ctx \<times> 'w)" where
  "add_desktop_software_body env c item_details st =
     (case software_enabled c of
        Inl e \<Rightarrow> (Inl e, st)
      | Inr False \<Rightarrow> (Inr item_details, st)
      | Inr True \<Rightarrow>
          and_then_st
            (get_software_response env c item_details
               (update_rendering_context (fst st) [(''detail_response'', item_details)], snd st))
            (\<lambda>software_response st1.
               case build_list_of_software env c software_response (fst st1) of
                 (Inl e, ctx2) \<Rightarrow> (Inl e, (ctx2, snd st1))
               | (Inr list_of_software, ctx2) \<Rightarrow>
                   (add_list_of_software item_details list_of_software, (ctx2, snd st1))))"

definition add_desktop_software ::
  "'w env \<Rightarrow> connector \<Rightarrow> pyval \<Rightarrow> ctx \<times> 'w \<Rightarrow> (error + pyval) \<times> (ctx \<times> 'w)" where
  "add_desktop_software env c item_details st =
     (case add_desktop_software_body env c item_details st of
        (Inl exc, st1) \<Rightarrow> (Inl (ManagedConnectorSoftwareGetException (exc_str env exc)), st1)
      | (Inr item_details1, st1) \<Rightarrow> (Inr item_details1, st1))"

text \<open>\<^verbatim>\<open>item_details['saas'][k] = v\<close>, when \<open>v\<close> is true.\<close>

definition set_saas_field :: "pyval \<Rightarrow> string \<Rightarrow> pyval \<Rightarrow> error + pyval" where
  "set_saas_field item_details k v =
     (if truthy v then
        and_then (py_subscript item_details ''saas'') (\<lambda>saas.
        and_then (py_setitem saas k v) (\<lambda>saas1. py_setitem item_details ''saas'' saas1))
      else Inr item_details)"

definition add_saas_information_body :: "connector \<Rightarrow> pyval \<Rightarrow> error + pyval" where
  "add_saas_information_body c item_details =
     (case saas_behavior c of
        PDict kvs \<Rightarrow>
          if truthy (get_default kvs ''enabled'' PNone) \<and> truthy (get_default kvs ''sync_key'' PNone)
          then
            and_then (py_subscript (PDict kvs) ''sync_key'') (\<lambda>sync_key.
            and_then (py_setitem item_details ''saas'' (PDict [(PStr ''sync_key'', sync_key)]))
              (\<lambda>d1.
            and_then (set_saas_field d1 ''selected_saas_id''
                        (get_default kvs ''selected_saas_id'' PNone)) (\<lambda>d2.
              set_saas_field d2 ''name'' (get_default kvs ''name'' PNone))))
          else Inr item_details
      | _ \<Rightarrow> Inr item_details)"

definition add_saas_information :: "'w env \<Rightarrow> connector \<Rightarrow> pyval \<Rightarrow> error + pyval" where
  "add_saas_information env c item_details =
     (case add_saas_information_body c item_details of
        Inl exc \<Rightarrow> Inl (ManagedConnectorSaaSGetException (exc_str env exc))
      | Inr item_details1 \<Rightarrow> Inr item_details1)"

text \<open>
  What \<^verbatim>\<open>_load_list\<close> yields for one record: the enriched record, or the pair of the
  record and an error text.
\<close>

datatype enrichment = Enriched pyval | Degraded pyval string

fun is_enrichment_exception :: "error \<Rightarrow> bool" where
  "is_enrichment_exception (ManagedConnectorSoftwareGetException m) = True"
| "is_enrichment_exception (ManagedConnectorDetailsGetException m) = True"
| "is_enrichment_exception (ManagedConnectorSaaSGetException m) = True"
| "is_enrichment_exception e = False"


text \<open>
  The \<^verbatim>\<open>try\<close> block in the loop of \<^verbatim>\<open>_load_list\<close>. Besides the outcome it returns
  the value of the object \<open>list_response_item\<close> at the end: without a detail behaviour
  \<open>item_details\<close> is that very object, and what the software step stores in
  \<open>item_details\<close> is stored in it.
\<close>

definition enrichment_steps ::
  "'w env \<Rightarrow> connector \<Rightarrow> pyval \<Rightarrow> ctx \<times> 'w \<Rightarrow> ((error + pyval) \<times> pyval) \<times> (ctx \<times> 'w)" where
  "enrichment_steps env c list_response_item st =
     (case get_detail_of_item env c list_response_item st of
        (Inl e, st1) \<Rightarrow> ((Inl e, list_response_item), st1)
      | (Inr item_details, st1) \<Rightarrow>
          (case add_desktop_software env c item_details st1 of
             (Inl e, st2) \<Rightarrow> ((Inl e, list_response_item), st2)
           | (Inr item_details1, st2) \<Rightarrow>
               (let item_now = (if truthy (detail_behavior c) then list_response_item
                                else item_details1)
                in case add_saas_information env c item_details1 of
                     Inl e \<Rightarrow> ((Inl e, item_now), st2)
                   | Inr item_details2 \<Rightarrow>
                       ((Inr item_details2,
                         if truthy (detail_behavior c) then list_response_item else item_details2),
                        st2))))"

text \<open>
  The body of the loop of \<^verbatim>\<open>_load_list\<close>: the three enrichment exceptions are
  caught and reported with the record, any other exception leaves the generator.
\<close>

definition load_list_body ::
  "'w env \<Rightarrow> connector \<Rightarrow> pyval \<Rightarrow> ctx \<times> 'w \<Rightarrow> (error + enrichment) \<times> (ctx \<times> 'w)" where
  "load_list_body env c list_response_item st =
     (case enrichment_steps env c list_response_item st of
        ((Inl e, item_now), st1) \<Rightarrow>
          if is_enrichment_exception e then (Inr (Degraded item_now (exc_str env e)), st1)
          else (Inl e, st1)
      | ((Inr item_details, item_now), st1) \<Rightarrow> (Inr (Enriched item_details), st1))"

definition load_list ::
  "'w env \<Rightarrow> connector \<Rightarrow> pyval \<Rightarrow> bool \<Rightarrow> ctx \<times> 'w \<Rightarrow> (enrichment, 'w) paged_run" where
  "load_list env c iam_credentials skip_empty_response st =
     get_list_of_items env c (load_list_body env c) iam_credentials skip_empty_response st"

section \<open>The credential rotation driver\<close>

text \<open>
  What \<^verbatim>\<open>_load_iam_list\<close> yields: the materialised list of a rotating pass
  (\<^verbatim>\<open>yield iam_response\<close>), or one item of the default pass (\<^verbatim>\<open>yield from\<close>).
\<close>

datatype emission = One enrichment | Materialized "enrichment list"


text \<open>How many items of \<^verbatim>\<open>_load_list\<close> an emission carries.\<close>

fun emission_count :: "emission \<Rightarrow> nat" where
  "emission_count (One x) = 1"
| "emission_count (Materialized xs) = length xs"

text \<open>The \<^verbatim>\<open>except Exception\<close> clause of \<^verbatim>\<open>_load_iam_list\<close>.\<close>

definition classify_iam :: "'w env \<Rightarrow> nat \<Rightarrow> error \<Rightarrow> error" where
  "classify_iam env iteration exc =
     (if iteration = 0 then ManagedConnectorListGetInBeginningException (exc_str env exc)
      else ManagedConnectorListGetInMiddleException (exc_str env exc))"

text \<open>
  The loop over \<^verbatim>\<open>iam.get_iam_credentials()\<close>. The credential source is not among
  the sources; it is taken as the finite sequence of its steps, each of which acts on
  the world and produces a credential set or raises (a failing constructor of the
  source is a first step that raises). The result is what was yielded, the exception
  that ended the loop if any, \<open>iam_records\<close>, and the state.
\<close>

fun rotating_passes ::
  "'w env \<Rightarrow> connector \<Rightarrow> ('w \<Rightarrow> (error + pyval) \<times> 'w) list \<Rightarrow> nat \<Rightarrow> ctx \<times> 'w \<Rightarrow>
   emission list \<times> error option \<times> nat \<times> (ctx \<times> 'w)" where
  "rotating_passes env c [] iteration st = ([], None, 0, st)"
| "rotating_passes env c (next_credentials # rest) iteration st =
     (case next_credentials (snd st) of
        (Inl e, w1) \<Rightarrow> ([], Some (classify_iam env iteration e), 0, (fst st, w1))
      | (Inr iam_credentials, w1) \<Rightarrow>
          (let r = load_list env c iam_credentials True (fst st, w1)
           in case raised r of
                Some e \<Rightarrow> ([], Some (classify_iam env iteration e), 0, final r)
              | None \<Rightarrow>
                  (case rotating_passes env c rest (Suc iteration) (final r) of
                     (ems, exc, iam_records, st2) \<Rightarrow>
                       (Materialized (emitted r) # ems, exc,
                        length (emitted r) + iam_records, st2))))"

definition load_iam_list ::
  "'w env \<Rightarrow> connector \<Rightarrow> ('w \<Rightarrow> (error + pyval) \<times> 'w) list \<Rightarrow> ctx \<times> 'w \<Rightarrow> (emission, 'w) run" where
  "load_iam_list env c credential_source st =
     (case py_subscript (saas_authorization c) ''credential_id'' of
        Inl e \<Rightarrow> \<lparr>emitted = [], raised = Some (classify_iam env 0 e), final = st\<rparr>
      | Inr credential_id \<Rightarrow>
          (case rotating_passes env c credential_source 0 st of
             (ems, Some e, iam_records, st1) \<Rightarrow> \<lparr>emitted = ems, raised = Some e, final = st1\<rparr>
           | (ems, None, iam_records, st1) \<Rightarrow>
               (let r = load_list env c PNone (0 < iam_records) st1
                in \<lparr>emitted = ems @ map One (emitted r), raised = raised r, final = final r\<rparr>)))"


section \<open>Concrete scenarios\<close>

text \<open>
  A connector with a static secret, a list behaviour without pagination rules whose
  result expression selects the items of the list response, and no enrichment.
\<close>

definition example_connector :: connector where
  "example_connector =
     \<lparr>ConnectorID = ''7'',
      inputs_from_cloud = PDict [],
      saas_authorization =
        PDict [(PStr ''headers'', PDict [(PStr ''Authorization'', PStr ''Bearer Example'')]),
               (PStr ''params'', PDict [])],
      oomnitza_authorization = PDict [],
      session_auth_behavior = PNone,
      list_behavior = PDict [(PStr ''result'', PStr ''items'')],
      detail_behavior = PDict [],
      software_behavior = PNone,
      saas_behavior = PNone\<rparr>"

text \<open>
  Collaborators for the scenarios. The world is the list of the response bodies that
  the API will serve, one per request; a request beyond the list fails. The call
  builder returns one fixed specification. \<open>example_parse\<close> stands for the parser on
  four bodies: \<open>two\<close> for \<^verbatim>\<open>{"items": [{"id": 1}, {"id": 2}]}\<close>, \<open>none\<close> for
  \<^verbatim>\<open>{"items": []}\<close>, \<open>list\<close> for \<^verbatim>\<open>[1]\<close> and \<open>token\<close> for
  \<^verbatim>\<open>{"token": "abc"}\<close>. The renderer knows two expressions, \<open>items\<close> for
  \<^verbatim>\<open>list_response.items\<close> and \<open>token\<close> for \<^verbatim>\<open>response.token\<close>, and renders
  every other expression to itself.
\<close>

definition example_spec :: call_spec where
  "example_spec =
     \<lparr>http_method = PStr ''GET'', url = PStr ''https://example.com/api'',
      headers = [], params = [], ssl_adapter = PNone\<rparr>"

definition example_parse :: "string \<Rightarrow> error + pyval" where
  "example_parse t =
     (if t = ''two'' then
        Inr (PDict [(PStr ''items'',
                     PList [PDict [(PStr ''id'', PInt 1)], PDict [(PStr ''id'', PInt 2)]])])
      else if t = ''none'' then Inr (PDict [(PStr ''items'', PList [])])
      else if t = ''list'' then Inr (PList [PInt 1])
      else if t = ''token'' then Inr (PDict [(PStr ''token'', PStr ''abc'')])
      else Inl (ExternalError ''cannot parse''))"

definition example_render_to_native :: "ctx \<Rightarrow> pyval \<Rightarrow> error + pyval" where
  "example_render_to_native ctx expr =
     (if expr = PStr ''items'' then
        (case ctx ''list_response'' of
           Some (PDict kvs) \<Rightarrow> Inr (get_default kvs ''items'' PNone)
         | _ \<Rightarrow> Inr PNone)
      else Inr expr)"

definition example_render_to_string :: "ctx \<Rightarrow> pyval \<Rightarrow> error + string" where
  "example_render_to_string ctx expr =
     (if expr = PStr ''token'' then
        (case ctx ''response'' of
           Some (PDict kvs) \<Rightarrow>
             (case get_default kvs ''token'' PNone of
                PStr s \<Rightarrow> Inr s
              | _ \<Rightarrow> Inl (ExternalError ''undefined''))
         | _ \<Rightarrow> Inl (ExternalError ''undefined''))
      else (case expr of PStr s \<Rightarrow> Inr s | _ \<Rightarrow> Inr ''''))"

definition example_perform :: "call_spec \<Rightarrow> string list \<Rightarrow> (error + response) \<times> string list" where
  "example_perform spec w =
     (case w of
        [] \<Rightarrow> (Inl (ExternalError ''connection refused''), [])
      | t # ts \<Rightarrow> (Inr \<lparr>resp_text = t, resp_headers = PDict [], resp_links = PDict []\<rparr>, ts))"

fun example_exc_str :: "error \<Rightarrow> string" where
  "example_exc_str (ExternalError m) = m"
| "example_exc_str (ConfigError m) = m"
| "example_exc_str (ManagedConnectorListGetInBeginningException m) = m"
| "example_exc_str (ManagedConnectorListGetInMiddleException m) = m"
| "example_exc_str (ManagedConnectorListMaxIterationException m) = m"
| "example_exc_str (ManagedConnectorDetailsGetException m) = m"
| "example_exc_str (ManagedConnectorSoftwareGetException m) = m"
| "example_exc_str (ManagedConnectorSaaSGetException m) = m"
| "example_exc_str e = ''error''"

definition example_env :: "string list env" where
  "example_env =
     \<lparr>build_call_specs = (\<lambda>ctx behavior. Inr example_spec),
      render_to_native = example_render_to_native,
      render_to_string = example_render_to_string,
      perform_api_request = example_perform,
      response_to_object = example_parse,
      get_secret_by_credential_id =
        (\<lambda>credential_id spec w.
           (Inr (PDict [(PStr ''headers'', PDict []), (PStr ''params'', PDict []),
                        (PStr ''certificates'', PNone)]), w)),
      get_aws_session_secret =
        (\<lambda>spec iam_credentials w.
           (Inr (PDict [(PStr ''headers'', PDict []), (PStr ''params'', PDict [])]), w)),
      init_mtls_ssl_adapter = (\<lambda>certificates. Inr certificates),
      exc_str = example_exc_str\<rparr>"

text \<open>
  A session behaviour whose result declares one header, rendered from the token of the
  session response.
\<close>

definition example_session_behavior :: pyval where
  "example_session_behavior =
     PDict [(PStr ''result'',
             PDict [(PStr ''headers'',
                     PList [PDict [(PStr ''key'', PStr ''Authorization''),
                                   (PStr ''value'', PStr ''token'')]])])]"

text \<open>What \<^verbatim>\<open>get_list_of_items\<close> pulls out of the list behaviour of that connector.\<close>

definition example_controls :: controls where
  "example_controls =
     \<lparr>pagination_dict = PDict [], break_early_control = PNone, add_if_control = PNone,
      result_control = PStr ''items''\<rparr>"

definition example_records :: "pyval list" where
  "example_records = [PDict [(PStr ''id'', PInt 1)], PDict [(PStr ''id'', PInt 2)]]"

text \<open>An API that answers every request with the same page of two records.\<close>

definition endless_env :: "string list env" where
  "endless_env =
     example_env\<lparr>perform_api_request :=
       (\<lambda>spec w. (Inr \<lparr>resp_text = ''two'', resp_headers = PDict [], resp_links = PDict []\<rparr>, w))\<rparr>"

text \<open>A list behaviour with a pagination rule set whose break-early control is true.\<close>

definition break_early_connector :: connector where
  "break_early_connector =
     example_connector\<lparr>list_behavior :=
       PDict [(PStr ''result'', PStr ''items''),
              (PStr ''pagination'', PDict [(PStr ''break_early'', PBool True)])]\<rparr>"

text \<open>
  The same connector with a detail behaviour, and with a credential id for the
  rotating-credential flow; a credential source that produces one credential set.
\<close>

definition detail_connector :: connector where
  "detail_connector =
     example_connector\<lparr>detail_behavior := PDict [(PStr ''url'', PStr ''detail'')]\<rparr>"

definition iam_connector :: connector where
  "iam_connector =
     example_connector
       \<lparr>inputs_from_cloud :=
          PDict [(PStr ''iam_roles'', PDict [(PStr ''value'', PList [PStr ''auditor''])])],
        saas_authorization := PDict [(PStr ''credential_id'', PStr ''cred'')]\<rparr>"

definition one_role :: "(string list \<Rightarrow> (error + pyval) \<times> string list) list" where
  "one_role = [\<lambda>w. (Inr (PDict [(PStr ''role'', PStr ''auditor'')]), w)]"

section \<open>Basic facts\<close>

lemma and_then_simps [simp]:
  "and_then (Inl e) f = Inl e"
  "and_then (Inr v) f = f v"
  by (simp_all add: and_then_def)

lemma and_then_st_simps [simp]:
  "and_then_st (Inl e, s) g = (Inl e, s)"
  "and_then_st (Inr v, s) g = g v s"
  by (simp_all add: and_then_st_def)

lemma update_rendering_context_apply:
  "update_rendering_context ctx kvs k = (case map_of kvs k of None \<Rightarrow> ctx k | Some v \<Rightarrow> Some v)"
  by (simp add: update_rendering_context_def map_add_def)

lemma clear_rendering_context_apply:
  "clear_rendering_context ctx ks k = (if k \<in> set ks then None else ctx k)"
  by (simp add: clear_rendering_context_def)

text \<open>The scenarios' collaborators, field by field, and what their API serves.\<close>

lemma consume_all_hand_over: "consume_all hand_over xs s = (xs, None, s)"
  by (induction xs arbitrary: s) (simp_all add: hand_over_def)

lemma example_records_nonempty [simp]: "example_records \<noteq> []"
  by (simp add: example_records_def)

lemma example_env_fields:
  "build_call_specs example_env = (\<lambda>ctx behavior. Inr example_spec)"
  "render_to_native example_env = example_render_to_native"
  "render_to_string example_env = example_render_to_string"
  "perform_api_request example_env = example_perform"
  "response_to_object example_env = example_parse"
  "exc_str example_env = example_exc_str"
  by (simp_all add: example_env_def)

lemma endless_env_fields:
  "build_call_specs endless_env = (\<lambda>ctx behavior. Inr example_spec)"
  "render_to_native endless_env = example_render_to_native"
  "render_to_string endless_env = example_render_to_string"
  "perform_api_request endless_env =
     (\<lambda>spec w. (Inr \<lparr>resp_text = ''two'', resp_headers = PDict [], resp_links = PDict []\<rparr>, w))"
  "response_to_object endless_env = example_parse"
  "exc_str endless_env = example_exc_str"
  by (simp_all add: endless_env_def example_env_def)

lemma example_read_controls: "read_controls example_connector = Inr example_controls"
  by (simp add: read_controls_def example_connector_def example_controls_def get_default_def)

lemma example_attach:
  "attach_saas_authorization example_env example_connector spec st =
     (Inr (PDict [(PStr ''Authorization'', PStr ''Bearer Example'')], PDict [], PNone), st)"
  by (simp add: attach_saas_authorization_def example_connector_def secret_parts_def
        get_default_def)

lemma example_page_two:
  "list_iteration example_env example_connector example_controls PNone (ctx, ''two'' # ts) =
     Page (PList example_records)
       (update_rendering_context ctx
          [(''list_response'', PDict [(PStr ''items'', PList example_records)]),
           (''list_response_headers'', PDict []), (''list_response_links'', PDict [])], ts)"
  by (simp add: list_iteration_def pagination_extras_def example_controls_def
        fetch_list_response_def list_authorization_def example_attach
        apply_authorization_def update_kwargs_def shim_check_def Let_def
        example_env_fields example_spec_def example_perform_def example_parse_def
        example_render_to_native_def update_rendering_context_def get_default_def
        example_records_def)

lemma example_page_none:
  "list_iteration example_env example_connector example_controls PNone (ctx, ''none'' # ts) =
     Page (PList [])
       (update_rendering_context ctx
          [(''list_response'', PDict [(PStr ''items'', PList [])]),
           (''list_response_headers'', PDict []), (''list_response_links'', PDict [])], ts)"
  by (simp add: list_iteration_def pagination_extras_def example_controls_def
        fetch_list_response_def list_authorization_def example_attach
        apply_authorization_def update_kwargs_def shim_check_def Let_def
        example_env_fields example_spec_def example_perform_def example_parse_def
        example_render_to_native_def update_rendering_context_def get_default_def)

lemma endless_page:
  "list_iteration endless_env example_connector example_controls PNone (ctx, w) =
     Page (PList example_records)
       (update_rendering_context ctx
          [(''list_response'', PDict [(PStr ''items'', PList example_records)]),
           (''list_response_headers'', PDict []), (''list_response_links'', PDict [])], w)"
  by (simp add: list_iteration_def pagination_extras_def example_controls_def
        fetch_list_response_def list_authorization_def
        apply_authorization_def update_kwargs_def shim_check_def Let_def
        attach_saas_authorization_def example_connector_def secret_parts_def
        endless_env_fields example_spec_def example_parse_def
        example_render_to_native_def update_rendering_context_def get_default_def
        example_records_def)

lemma endless_full_pages:
  "\<exists>outs st'. full_pages endless_env example_connector example_controls hand_over PNone i n st
                 = Some (outs, st')"
proof (induction n arbitrary: i st)
  case 0
  then show ?case by simp
next
  case (Suc n)
  obtain ctx w where st: "st = (ctx, w)" by (cases st)
  let ?st2 = "(update_rendering_context ctx
          [(''list_response'', PDict [(PStr ''items'', PList example_records)]),
           (''list_response_headers'', PDict []), (''list_response_links'', PDict [])], w)"
  from Suc.IH [of "Suc i" "set_iteration (Suc i) ?st2"]
  obtain outs st' where "full_pages endless_env example_connector example_controls hand_over PNone
                            (Suc i) n (set_iteration (Suc i) ?st2) = Some (outs, st')"
    by blast
  then show ?case
    by (simp add: st endless_page consume_all_hand_over)
qed

section \<open>The authorization resolver\<close>

text \<open>
  C9, as the code has it. The platform-side loader keeps a non-empty string as it is,
  replaces every false value (\<^verbatim>\<open>None\<close>, the empty string, the empty mapping or
  list, zero, \<^verbatim>\<open>False\<close>) by the platform's own token, keeps of a mapping whose
  \<open>token_id\<close> is a true value the mapping with that one key, and raises the
  configuration error that names the connector for every other value.
\<close>

theorem oomnitza_authorization_loader_cases:
  "(\<forall>s. oomnitza_authorization c = PStr s \<and> s \<noteq> [] \<longrightarrow>
        oomnitza_authorization_loader api_token c = Inr c)
   \<and> (\<not> truthy (oomnitza_authorization c) \<longrightarrow>
        oomnitza_authorization_loader api_token c = Inr (c\<lparr>oomnitza_authorization := api_token\<rparr>))
   \<and> (\<forall>kvs. oomnitza_authorization c = PDict kvs \<and> truthy (get_default kvs ''token_id'' PNone) \<longrightarrow>
        oomnitza_authorization_loader api_token c =
          Inr (c\<lparr>oomnitza_authorization :=
                   PDict [(PStr ''token_id'', get_default kvs ''token_id'' PNone)]\<rparr>))
   \<and> (truthy (oomnitza_authorization c) \<and> \<not> is_str (oomnitza_authorization c)
        \<and> (\<forall>kvs. oomnitza_authorization c = PDict kvs \<longrightarrow>
               \<not> truthy (get_default kvs ''token_id'' PNone)) \<longrightarrow>
        oomnitza_authorization_loader api_token c =
          Inl (ConfigError (oomnitza_invalid_message (ConnectorID c))))"
  by (cases "oomnitza_authorization c")
     (auto simp: oomnitza_authorization_loader_def Let_def get_default_def)

text \<open>
  The four cases at concrete settings: a token, nothing, a token id, and a list of
  tokens.
\<close>

theorem oomnitza_authorization_loader_cases_witness:
  "oomnitza_authorization_loader (PStr ''platform-token'')
     (example_connector\<lparr>oomnitza_authorization := PStr ''qwertyuio1234567890''\<rparr>)
   = Inr (example_connector\<lparr>oomnitza_authorization := PStr ''qwertyuio1234567890''\<rparr>)
   \<and> oomnitza_authorization_loader (PStr ''platform-token'') example_connector
   = Inr (example_connector\<lparr>oomnitza_authorization := PStr ''platform-token''\<rparr>)
   \<and> oomnitza_authorization_loader (PStr ''platform-token'')
     (example_connector\<lparr>oomnitza_authorization := PDict [(PStr ''token_id'', PInt 1234567890)]\<rparr>)
   = Inr (example_connector\<lparr>oomnitza_authorization := PDict [(PStr ''token_id'', PInt 1234567890)]\<rparr>)
   \<and> oomnitza_authorization_loader (PStr ''platform-token'')
     (example_connector\<lparr>oomnitza_authorization := PList [PStr ''qwertyuio1234567890'']\<rparr>)
   = Inl (ConfigError ''Managed connector #7: Oomnitza authorization format is invalid. Exiting'')"
  using
    oomnitza_authorization_loader_cases
      [of "example_connector\<lparr>oomnitza_authorization := PStr ''qwertyuio1234567890''\<rparr>"
          "PStr ''platform-token''"]
    oomnitza_authorization_loader_cases [of example_connector "PStr ''platform-token''"]
    oomnitza_authorization_loader_cases
      [of "example_connector\<lparr>oomnitza_authorization := PDict [(PStr ''token_id'', PInt 1234567890)]\<rparr>"
          "PStr ''platform-token''"]
    oomnitza_authorization_loader_cases
      [of "example_connector\<lparr>oomnitza_authorization := PList [PStr ''qwertyuio1234567890'']\<rparr>"
          "PStr ''platform-token''"]
  by (simp add: example_connector_def get_default_def oomnitza_invalid_message_def)

text \<open>
  C9 as the spec words it fails for a mapping that contains \<open>token_id\<close> with a false
  value: the mapping \<^verbatim>\<open>{"token_id": 0}\<close> is not kept, the loader raises the
  configuration error.
\<close>

theorem oomnitza_token_id_zero_rejected:
  "oomnitza_authorization_loader (PStr ''platform-token'')
     (example_connector\<lparr>oomnitza_authorization := PDict [(PStr ''token_id'', PInt 0)]\<rparr>)
   = Inl (ConfigError ''Managed connector #7: Oomnitza authorization format is invalid. Exiting'')"
  by (simp add: oomnitza_authorization_loader_def example_connector_def get_default_def
        oomnitza_invalid_message_def)

text \<open>
  C3 at the setting \<^verbatim>\<open>{"type": "session"}\<close>, a mapping that has none of the three
  recognised shapes: the session branch reads \<^verbatim>\<open>value['behavior']\<close> without a check,
  and the loader leaves with a KeyError where a configuration error is due.
\<close>

theorem saas_session_without_behavior_key_error:
  "saas_authorization_loader json_loads
     (example_connector\<lparr>saas_authorization := PDict [(PStr ''type'', PStr ''session'')]\<rparr>)
   = Inl (KeyError (PStr ''behavior''))"
  by (simp add: saas_authorization_loader_def example_connector_def get_default_def)

text \<open>
  What the API-side loader does on a mapping outside that case: the three modes in the
  order of the code, and the configuration error for the rest.
\<close>

lemma saas_authorization_of_dict:
  assumes "get_default kvs ''type'' PNone = PStr ''session'' \<longrightarrow>
             is_str (get_default kvs ''credential_id'' PNone) \<or> map_of kvs (PStr ''behavior'') \<noteq> None"
  shows "saas_authorization_of_value c (PDict kvs) =
     (if is_str (get_default kvs ''credential_id'' PNone) then
        Inr (c\<lparr>saas_authorization :=
                 PDict [(PStr ''credential_id'', get_default kvs ''credential_id'' PNone)]\<rparr>)
      else if get_default kvs ''type'' PNone = PStr ''session'' then
        Inr (c\<lparr>saas_authorization := PDict [],
               session_auth_behavior := the (map_of kvs (PStr ''behavior''))\<rparr>)
      else if has_static_secret kvs then
        Inr (c\<lparr>saas_authorization :=
                 PDict [(PStr ''headers'', get_default kvs ''headers'' (PDict [])),
                        (PStr ''params'', get_default kvs ''params'' (PDict []))]\<rparr>)
      else Inl (ConfigError (saas_invalid_message (ConnectorID c))))"
  using assms by (auto split: option.splits)

section \<open>The pagination engine: bound and outcomes\<close>

lemma pagination_loop_at_limit:
  "pagination_loop env c k consume iam skip MAX_ITERATIONS st =
     \<lparr>emitted = [],
      raised = Some (ManagedConnectorListMaxIterationException ''Reached max iterations''),
      final = st, bodies = 0\<rparr>"
  by (simp add: pagination_loop.simps [of env c k consume iam skip MAX_ITERATIONS st])

lemma pagination_loop_bodies:
  "bodies (pagination_loop env c k consume iam skip i st) \<le> MAX_ITERATIONS - i"
proof (induction env c k consume iam skip i st rule: pagination_loop.induct)
  case (1 env c k consume iam skip i st)
  show ?case
  proof (cases "i < MAX_ITERATIONS")
    case False
    then show ?thesis
      by (simp add: pagination_loop.simps [of env c k consume iam skip i st])
  next
    case True
    then have room: "1 \<le> MAX_ITERATIONS - i" by simp
    show ?thesis
    proof (cases "list_iteration env c k iam st")
      case BreakEarly
      with True room show ?thesis
        by (simp add: pagination_loop.simps [of env c k consume iam skip i st])
    next
      case (PageError e st1)
      with True room show ?thesis
        by (simp add: pagination_loop.simps [of env c k consume iam skip i st])
    next
      case (Page result st1)
      show ?thesis
      proof (cases "truthy result")
        case False
        with True room Page show ?thesis
          by (simp add: pagination_loop.simps [of env c k consume iam skip i st])
      next
        case truthy: True
        show ?thesis
        proof (cases "py_iter result")
          case (Inl e)
          with True room Page truthy show ?thesis
            by (simp add: pagination_loop.simps [of env c k consume iam skip i st])
        next
          case (Inr entities)
          obtain outs exc st2 where ca: "consume_all consume entities st1 = (outs, exc, st2)"
            by (cases "consume_all consume entities st1") auto
          show ?thesis
          proof (cases exc)
            case (Some e)
            with True room Page truthy Inr ca show ?thesis
              by (simp add: pagination_loop.simps [of env c k consume iam skip i st])
          next
            case None
            have "bodies (pagination_loop env c k consume iam skip (Suc i) (set_iteration (Suc i) st2))
                    \<le> MAX_ITERATIONS - Suc i"
              using "1.IH" [OF True Page _ Inr ca [symmetric] refl None] truthy by simp
            with True Page truthy Inr ca None show ?thesis
              by (simp add: pagination_loop.simps [of env c k consume iam skip i st] Let_def)
          qed
        qed
      qed
    qed
  qed
qed

lemma pagination_loop_full_pages:
  assumes "full_pages env c k consume iam i n st = Some (outs, stn)"
    and "i + n \<le> MAX_ITERATIONS"
  shows "pagination_loop env c k consume iam skip i st =
     (let r = pagination_loop env c k consume iam skip (i + n) stn
      in r\<lparr>emitted := outs @ emitted r, bodies := n + bodies r\<rparr>)"
  using assms
proof (induction n arbitrary: i st outs)
  case 0
  then show ?case by simp
next
  case (Suc n)
  from Suc.prems(2) have lt: "i < MAX_ITERATIONS" by simp
  from Suc.prems(1) obtain result st1 entities page_outs st2 later where
      page: "list_iteration env c k iam st = Page result st1"
    and truthy: "truthy result"
    and iter: "py_iter result = Inr entities"
    and ca: "consume_all consume entities st1 = (page_outs, None, st2)"
    and rest: "full_pages env c k consume iam (Suc i) n (set_iteration (Suc i) st2) = Some (later, stn)"
    and outs: "outs = page_outs @ later"
    by (auto split: page.splits if_splits sum.splits prod.splits option.splits)
  from Suc.prems(2) have "Suc i + n \<le> MAX_ITERATIONS" by simp
  from Suc.IH [OF rest this]
  have "pagination_loop env c k consume iam skip (Suc i) (set_iteration (Suc i) st2) =
     (let r = pagination_loop env c k consume iam skip (Suc i + n) stn
      in r\<lparr>emitted := later @ emitted r, bodies := n + bodies r\<rparr>)" .
  with lt page truthy iter ca outs show ?case
    by (simp add: pagination_loop.simps [of env c k consume iam skip i st] Let_def)
qed

lemma pagination_loop_empty_page:
  assumes "i < MAX_ITERATIONS"
    and "list_iteration env c k iam st = Page result st1"
    and "\<not> truthy result"
  shows "pagination_loop env c k consume iam skip i st =
     \<lparr>emitted = [],
      raised = (if i = 0 \<and> \<not> skip then Some ManagedConnectorListGetEmptyInBeginningException
                else None),
      final = st1, bodies = 1\<rparr>"
  using assms by (simp add: pagination_loop.simps [of env c k consume iam skip i st])

lemma full_pages_zero_iff:
  "full_pages env c k consume iam i 0 st = Some (outs, stn) \<longleftrightarrow> outs = [] \<and> stn = st"
  by auto

text \<open>
  C1. The loop of \<^verbatim>\<open>get_list_of_items\<close> never enters its body more than
  \<open>MAX_ITERATIONS = 1000\<close> times, whatever the configuration, the consumer and the
  collaborators do. When it has gone through 1000 bodies each of which had a page with
  records in hand (none ended by an empty page, by the break-early check or by an
  exception), the generator raises the max-iteration outcome, after having emitted the
  records of these pages.
\<close>

theorem pagination_bounded:
  "MAX_ITERATIONS = 1000
   \<and> bodies (get_list_of_items env c consume iam skip st) \<le> MAX_ITERATIONS
   \<and> (\<forall>k outs st'.
        read_controls c = Inr k
        \<and> full_pages env c k consume iam 0 MAX_ITERATIONS (list_start st) = Some (outs, st')
        \<longrightarrow> get_list_of_items env c consume iam skip st =
              \<lparr>emitted = outs,
               raised = Some (ManagedConnectorListMaxIterationException ''Reached max iterations''),
               final = st', bodies = MAX_ITERATIONS\<rparr>)"
proof (intro conjI allI impI)
  show "MAX_ITERATIONS = 1000" by (simp add: MAX_ITERATIONS_def)
next
  show "bodies (get_list_of_items env c consume iam skip st) \<le> MAX_ITERATIONS"
    using pagination_loop_bodies [of env c _ consume iam skip 0 "list_start st"]
    by (simp add: get_list_of_items_def split: sum.splits)
next
  fix k outs st'
  assume h: "read_controls c = Inr k
        \<and> full_pages env c k consume iam 0 MAX_ITERATIONS (list_start st) = Some (outs, st')"
  then have "pagination_loop env c k consume iam skip 0 (list_start st) =
     (let r = pagination_loop env c k consume iam skip (0 + MAX_ITERATIONS) st'
      in r\<lparr>emitted := outs @ emitted r, bodies := MAX_ITERATIONS + bodies r\<rparr>)"
    by (intro pagination_loop_full_pages) simp_all
  with h show "get_list_of_items env c consume iam skip st =
              \<lparr>emitted = outs,
               raised = Some (ManagedConnectorListMaxIterationException ''Reached max iterations''),
               final = st', bodies = MAX_ITERATIONS\<rparr>"
    by (simp add: get_list_of_items_def pagination_loop_at_limit Let_def)
qed

text \<open>
  An API that serves the same two records for ever: the run ends after 1000 bodies with
  the max-iteration outcome.
\<close>

theorem pagination_bounded_witness:
  "raised (get_list_of_items endless_env example_connector hand_over PNone False (Map.empty, []))
     = Some (ManagedConnectorListMaxIterationException ''Reached max iterations'')
   \<and> bodies (get_list_of_items endless_env example_connector hand_over PNone False (Map.empty, []))
     = 1000"
proof -
  obtain outs st' where
    "full_pages endless_env example_connector example_controls hand_over PNone 0 MAX_ITERATIONS
       (list_start (Map.empty, [])) = Some (outs, st')"
    using endless_full_pages by blast
  with pagination_bounded [of endless_env example_connector hand_over PNone False "(Map.empty, [])"]
    example_read_controls
  have "get_list_of_items endless_env example_connector hand_over PNone False (Map.empty, []) =
          \<lparr>emitted = outs,
           raised = Some (ManagedConnectorListMaxIterationException ''Reached max iterations''),
           final = st', bodies = MAX_ITERATIONS\<rparr>"
    by blast
  then show ?thesis by (simp add: MAX_ITERATIONS_def)
qed

text \<open>
  C2. When the rendered result of a page is empty (a false value), after \<open>n\<close> pages
  with records: for \<open>n = 0\<close> and no tolerance the generator raises the empty-at-start
  outcome and has emitted nothing; for \<open>n = 0\<close> with tolerance, and for every
  \<open>n > 0\<close>, it ends without an exception, having emitted exactly what the \<open>n\<close> pages
  before gave.
\<close>

theorem empty_page_ends_pagination:
  assumes "read_controls c = Inr k"
    and "full_pages env c k consume iam 0 n (list_start st) = Some (outs, stn)"
    and "n < MAX_ITERATIONS"
    and "list_iteration env c k iam stn = Page result st1"
    and "\<not> truthy result"
  shows "get_list_of_items env c consume iam skip st =
     \<lparr>emitted = outs,
      raised = (if n = 0 \<and> \<not> skip then Some ManagedConnectorListGetEmptyInBeginningException
                else None),
      final = st1, bodies = Suc n\<rparr>
     \<and> (n = 0 \<longrightarrow> outs = [])"
proof -
  from assms(3) have le: "0 + n \<le> MAX_ITERATIONS" by simp
  have "pagination_loop env c k consume iam skip 0 (list_start st) =
     (let r = pagination_loop env c k consume iam skip (0 + n) stn
      in r\<lparr>emitted := outs @ emitted r, bodies := n + bodies r\<rparr>)"
    by (rule pagination_loop_full_pages [OF assms(2) le])
  moreover have "pagination_loop env c k consume iam skip n stn =
     \<lparr>emitted = [],
      raised = (if n = 0 \<and> \<not> skip then Some ManagedConnectorListGetEmptyInBeginningException
                else None),
      final = st1, bodies = 1\<rparr>"
    by (rule pagination_loop_empty_page [OF assms(3,4,5)])
  ultimately have "get_list_of_items env c consume iam skip st =
     \<lparr>emitted = outs,
      raised = (if n = 0 \<and> \<not> skip then Some ManagedConnectorListGetEmptyInBeginningException
                else None),
      final = st1, bodies = Suc n\<rparr>"
    using assms(1) by (simp add: get_list_of_items_def Let_def)
  moreover from assms(2) have "n = 0 \<longrightarrow> outs = []" by auto
  ultimately show ?thesis by simp
qed

text \<open>
  The scenarios: an empty first page without and with tolerance, and the page of two
  records followed by an empty page.
\<close>

theorem empty_page_ends_pagination_witness:
  "raised (get_list_of_items example_env example_connector hand_over PNone False
             (Map.empty, [''none''])) = Some ManagedConnectorListGetEmptyInBeginningException
   \<and> emitted (get_list_of_items example_env example_connector hand_over PNone False
             (Map.empty, [''none''])) = []
   \<and> raised (get_list_of_items example_env example_connector hand_over PNone True
             (Map.empty, [''none''])) = None
   \<and> raised (get_list_of_items example_env example_connector hand_over PNone False
             (Map.empty, [''two'', ''none''])) = None
   \<and> emitted (get_list_of_items example_env example_connector hand_over PNone False
             (Map.empty, [''two'', ''none''])) = example_records"
proof -
  have start: "\<And>ws. list_start (Map.empty, ws) = (fst (list_start (Map.empty, ws::string list)), ws)"
    by (simp add: list_start_def)
  have zero: "\<And>ws. full_pages example_env example_connector example_controls hand_over PNone 0 0
                 (list_start (Map.empty, ws)) = Some ([], list_start (Map.empty, ws::string list))"
    by simp
  have none: "\<And>ctx. \<exists>st1. list_iteration example_env example_connector example_controls PNone
                 (ctx, [''none'']) = Page (PList []) st1"
    by (simp add: example_page_none)
  obtain st1 where p0: "list_iteration example_env example_connector example_controls PNone
                 (list_start (Map.empty, [''none''])) = Page (PList []) st1"
    using none [of "fst (list_start (Map.empty, [''none'']))"] start [of "[''none'']"] by auto
  obtain st2 where one: "full_pages example_env example_connector example_controls hand_over PNone 0 1
                 (list_start (Map.empty, [''two'', ''none''])) = Some (example_records, st2)"
      and st2: "snd st2 = [''none'']"
    by (simp add: list_start_def example_page_two consume_all_hand_over set_iteration_def)
  obtain st3 where p1: "list_iteration example_env example_connector example_controls PNone st2
                          = Page (PList []) st3"
    using none [of "fst st2"] st2 by (cases st2) auto
  have lt0: "0 < MAX_ITERATIONS" and lt1: "1 < MAX_ITERATIONS"
    by (simp_all add: MAX_ITERATIONS_def)
  have e: "\<not> truthy (PList [])" by simp
  from empty_page_ends_pagination [OF example_read_controls zero lt0 p0 e, of False]
       empty_page_ends_pagination [OF example_read_controls zero lt0 p0 e, of True]
       empty_page_ends_pagination [OF example_read_controls one lt1 p1 e, of False]
  show ?thesis by simp
qed

text \<open>
  C10. With a pagination rule set present (a true value) whose break-early control
  renders true in the first body, \<^verbatim>\<open>get_list_of_items\<close> ends without an exception
  and without a record, whatever \<open>skip_empty_response\<close> is: the check comes before
  the request, so the world is as it was and the empty-first-page check is never
  reached.
\<close>

theorem break_early_at_start:
  assumes "read_controls c = Inr k"
    and "truthy (pagination_dict k)"
    and "build_call_specs env (fst (list_start st)) (list_behavior c) = Inr spec"
    and "render_to_native env (fst (list_start st)) (break_early_control k) = Inr b"
    and "truthy b"
  shows "get_list_of_items env c consume iam skip st =
     \<lparr>emitted = [], raised = None, final = list_start st, bodies = 1\<rparr>
     \<and> snd (list_start st) = snd st"
proof -
  from assms(2-5) have "list_iteration env c k iam (list_start st) = BreakEarly"
    by (simp add: list_iteration_def pagination_extras_def)
  then have "pagination_loop env c k consume iam skip 0 (list_start st) =
     \<lparr>emitted = [], raised = None, final = list_start st, bodies = 1\<rparr>"
    by (simp add: pagination_loop.simps [of env c k consume iam skip 0 "list_start st"]
          MAX_ITERATIONS_def)
  with assms(1) show ?thesis
    by (simp add: get_list_of_items_def list_start_def)
qed

text \<open>
  A list behaviour whose break-early control is the constant true, no tolerance: the
  run ends at once, and the two responses that the API holds are still to be served.
\<close>

theorem break_early_at_start_witness:
  "get_list_of_items example_env break_early_connector hand_over PNone False
     (Map.empty, [''two'', ''none''])
   = \<lparr>emitted = [], raised = None, final = list_start (Map.empty, [''two'', ''none'']),
      bodies = 1\<rparr>
   \<and> snd (list_start (Map.empty, [''two'', ''none''])) = [''two'', ''none'']"
proof -
  have rc: "read_controls break_early_connector =
      Inr \<lparr>pagination_dict = PDict [(PStr ''break_early'', PBool True)],
           break_early_control = PBool True, add_if_control = PNone,
           result_control = PStr ''items''\<rparr>"
    by (simp add: read_controls_def break_early_connector_def example_connector_def
          get_default_def)
  have pd: "truthy (pagination_dict \<lparr>pagination_dict = PDict [(PStr ''break_early'', PBool True)],
           break_early_control = PBool True, add_if_control = PNone,
           result_control = PStr ''items''\<rparr>)"
    by simp
  have b: "build_call_specs example_env (fst (list_start (Map.empty, [''two'', ''none''])))
             (list_behavior break_early_connector) = Inr example_spec"
    by (simp add: example_env_fields)
  have r: "render_to_native example_env (fst (list_start (Map.empty, [''two'', ''none''])))
             (break_early_control \<lparr>pagination_dict = PDict [(PStr ''break_early'', PBool True)],
           break_early_control = PBool True, add_if_control = PNone,
           result_control = PStr ''items''\<rparr>) = Inr (PBool True)"
    by (simp add: example_env_fields example_render_to_native_def)
  have t: "truthy (PBool True)" by simp
  from break_early_at_start [OF rc pd b r t, of hand_over PNone False]
  show ?thesis by simp
qed

section \<open>Session-secret generation\<close>

text \<open>
  C6. After every call of \<^verbatim>\<open>generate_session_based_secret\<close> that returns, the keys
  \<open>response\<close> and \<open>response_headers\<close> are absent from the rendering context and every
  other key is as it was before the call; the headers and params of the returned secret
  are the renderings of the behaviour's result templates against the context in which
  the two keys held the parsed session response and its headers.
\<close>

theorem session_secret_clears_response:
  assumes "generate_session_based_secret env c st = (Inr secret, st')"
  shows "fst st' ''response'' = None \<and> fst st' ''response_headers'' = None
     \<and> (\<forall>k. k \<noteq> ''response'' \<and> k \<noteq> ''response_headers'' \<longrightarrow> fst st' k = fst st k)
     \<and> (\<exists>spec resp obj ctx1 auth_headers auth_params.
           build_call_specs env (fst st) (session_auth_behavior c) = Inr spec
         \<and> fst (perform_api_request env spec (snd st)) = Inr resp
         \<and> response_to_object env (resp_text resp) = Inr obj
         \<and> ctx1 = update_rendering_context (fst st)
                    [(''response'', obj), (''response_headers'', resp_headers resp)]
         \<and> ctx1 ''response'' = Some obj
         \<and> ctx1 ''response_headers'' = Some (resp_headers resp)
         \<and> session_result_part env c ctx1 ''headers'' = Inr auth_headers
         \<and> session_result_part env c ctx1 ''params'' = Inr auth_params
         \<and> secret = PDict [(PStr ''headers'', auth_headers), (PStr ''params'', auth_params)])"
  using assms
  by (auto simp: generate_session_based_secret_def Let_def update_rendering_context_apply
        clear_rendering_context_apply
      split: sum.splits prod.splits)

text \<open>
  A session whose response carries the token \<open>abc\<close>: the secret's header is rendered from
  it, and the context that the call leaves has no \<open>response\<close>.
\<close>

theorem session_secret_clears_response_witness:
  "fst (generate_session_based_secret example_env
          (example_connector\<lparr>session_auth_behavior := example_session_behavior\<rparr>)
          (Map.empty, [''token'']))
   = Inr (PDict [(PStr ''headers'', PDict [(PStr ''Authorization'', PStr ''abc'')]),
                 (PStr ''params'', PDict [])])
   \<and> fst (snd (generate_session_based_secret example_env
          (example_connector\<lparr>session_auth_behavior := example_session_behavior\<rparr>)
          (Map.empty, [''token'']))) ''response'' = None
   \<and> fst (snd (generate_session_based_secret example_env
          (example_connector\<lparr>session_auth_behavior := example_session_behavior\<rparr>)
          (Map.empty, [''token'']))) ''response_headers'' = None"
proof -
  obtain st' where run: "generate_session_based_secret example_env
     (example_connector\<lparr>session_auth_behavior := example_session_behavior\<rparr>)
     (Map.empty, [''token''])
   = (Inr (PDict [(PStr ''headers'', PDict [(PStr ''Authorization'', PStr ''abc'')]),
                  (PStr ''params'', PDict [])]), st')"
    by (simp add: generate_session_based_secret_def example_env_fields example_connector_def
          example_session_behavior_def example_perform_def example_parse_def
          session_result_part_def dict_comprehension_def example_render_to_string_def
          get_default_def update_rendering_context_apply Let_def)
  from session_secret_clears_response [OF run] run show ?thesis by simp
qed

section \<open>The record enricher: failures stay with their record\<close>



















section \<open>The detail fetch\<close>

lemma keep_list_response_item_dict:
  "py_subscript (keep_list_response_item (PDict kvs) item) ''list_response_item'' = Inr item
   \<and> (\<forall>k. k \<noteq> ''list_response_item'' \<longrightarrow>
          py_subscript (keep_list_response_item (PDict kvs) item) k = py_subscript (PDict kvs) k)"
  by (simp add: update_conv')

lemma keep_list_response_item_other:
  "\<not> is_dict obj \<Longrightarrow> keep_list_response_item obj item = obj"
  by (cases obj) simp_all

text \<open>
  C8, as the code has it. Without a detail behaviour \<^verbatim>\<open>get_detail_of_item\<close> returns
  the record as it is and leaves the state alone. With one, it calls the detail
  endpoint with the record in the context: an exception of the call comes back as the
  detail exception with its text; a parsed response that is a dict comes back with the
  record stored under \<open>list_response_item\<close> and its other keys as they were; a parsed
  response of any other type comes back as it is, without the record.
\<close>

theorem get_detail_of_item_cases:
  "(\<not> truthy (detail_behavior c) \<longrightarrow> get_detail_of_item env c item st = (Inr item, st))
   \<and> (truthy (detail_behavior c) \<longrightarrow>
        (\<exists>r st1.
           call_endpoint env c (detail_behavior c)
             (update_rendering_context (fst st) [(''list_response_item'', item)], snd st) = (r, st1)
         \<and> (case r of
               Inl exc \<Rightarrow>
                 get_detail_of_item env c item st =
                   (Inl (ManagedConnectorDetailsGetException (exc_str env exc)), st1)
             | Inr obj \<Rightarrow>
                 (\<exists>d. get_detail_of_item env c item st = (Inr d, st1)
                    \<and> (is_dict obj \<longrightarrow>
                          py_subscript d ''list_response_item'' = Inr item
                        \<and> (\<forall>k. k \<noteq> ''list_response_item'' \<longrightarrow>
                               py_subscript d k = py_subscript obj k))
                    \<and> (\<not> is_dict obj \<longrightarrow> d = obj)))))"
proof (intro conjI impI)
  assume "\<not> truthy (detail_behavior c)"
  then show "get_detail_of_item env c item st = (Inr item, st)"
    by (simp add: get_detail_of_item_def)
next
  assume on: "truthy (detail_behavior c)"
  let ?st0 = "(update_rendering_context (fst st) [(''list_response_item'', item)], snd st)"
  obtain r st1 where call: "call_endpoint env c (detail_behavior c) ?st0 = (r, st1)"
    by (cases "call_endpoint env c (detail_behavior c) ?st0")
  show "\<exists>r st1. call_endpoint env c (detail_behavior c) ?st0 = (r, st1)
         \<and> (case r of
               Inl exc \<Rightarrow>
                 get_detail_of_item env c item st =
                   (Inl (ManagedConnectorDetailsGetException (exc_str env exc)), st1)
             | Inr obj \<Rightarrow>
                 (\<exists>d. get_detail_of_item env c item st = (Inr d, st1)
                    \<and> (is_dict obj \<longrightarrow>
                          py_subscript d ''list_response_item'' = Inr item
                        \<and> (\<forall>k. k \<noteq> ''list_response_item'' \<longrightarrow>
                               py_subscript d k = py_subscript obj k))
                    \<and> (\<not> is_dict obj \<longrightarrow> d = obj)))"
  proof (cases r)
    case (Inl exc)
    with call on show ?thesis by (simp add: get_detail_of_item_def)
  next
    case (Inr obj)
    show ?thesis
    proof (cases "is_dict obj")
      case True
      then obtain kvs where "obj = PDict kvs" by (cases obj) auto
      with call on Inr keep_list_response_item_dict [of kvs item] show ?thesis
        by (simp add: get_detail_of_item_def)
    next
      case False
      with call on Inr keep_list_response_item_other [of obj item] show ?thesis
        by (simp add: get_detail_of_item_def)
    qed
  qed
qed

text \<open>
  The cases at a record with id 5: no detail behaviour; a detail response that is a
  dict; one that is a list; a request that fails.
\<close>

theorem get_detail_of_item_cases_witness:
  "fst (get_detail_of_item example_env example_connector (PDict [(PStr ''id'', PInt 5)])
          (Map.empty, [''token''])) = Inr (PDict [(PStr ''id'', PInt 5)])
   \<and> fst (get_detail_of_item example_env detail_connector (PDict [(PStr ''id'', PInt 5)])
          (Map.empty, [''token'']))
     = Inr (PDict [(PStr ''token'', PStr ''abc''),
                   (PStr ''list_response_item'', PDict [(PStr ''id'', PInt 5)])])
   \<and> fst (get_detail_of_item example_env detail_connector (PDict [(PStr ''id'', PInt 5)])
          (Map.empty, [''list''])) = Inr (PList [PInt 1])
   \<and> fst (get_detail_of_item example_env detail_connector (PDict [(PStr ''id'', PInt 5)])
          (Map.empty, [])) = Inl (ManagedConnectorDetailsGetException ''connection refused'')"
proof -
  have off: "\<not> truthy (detail_behavior example_connector)"
    by (simp add: example_connector_def)
  have on: "truthy (detail_behavior detail_connector)"
    by (simp add: detail_connector_def)
  have dict_detail: "fst (get_detail_of_item example_env detail_connector (PDict [(PStr ''id'', PInt 5)])
          (Map.empty, [''token'']))
     = Inr (PDict [(PStr ''token'', PStr ''abc''),
                   (PStr ''list_response_item'', PDict [(PStr ''id'', PInt 5)])])"
    by code_simp
  have list_detail: "fst (get_detail_of_item example_env detail_connector (PDict [(PStr ''id'', PInt 5)])
          (Map.empty, [''list''])) = Inr (PList [PInt 1])"
    by code_simp
  have failed: "fst (get_detail_of_item example_env detail_connector (PDict [(PStr ''id'', PInt 5)])
          (Map.empty, [])) = Inl (ManagedConnectorDetailsGetException ''connection refused'')"
    by code_simp
  from get_detail_of_item_cases
         [of example_connector example_env "PDict [(PStr ''id'', PInt 5)]" "(Map.empty, [''token''])"]
       off
  have "get_detail_of_item example_env example_connector (PDict [(PStr ''id'', PInt 5)])
          (Map.empty, [''token'']) = (Inr (PDict [(PStr ''id'', PInt 5)]), (Map.empty, [''token'']))"
    by blast
  with dict_detail list_detail failed show ?thesis by simp
qed

text \<open>
  C8 as the spec words it fails when the detail response is not a dict: for the
  response \<^verbatim>\<open>[1]\<close> the returned value is that list, and the record with id 5 is
  not in it.
\<close>

theorem detail_response_list_drops_record:
  "fst (get_detail_of_item example_env detail_connector (PDict [(PStr ''id'', PInt 5)])
          (Map.empty, [''list''])) = Inr (PList [PInt 1])"
  by code_simp


section \<open>The credential rotation driver\<close>

lemma rotating_passes_count:
  "rotating_passes env c source i st = (ems, None, n, st1) \<Longrightarrow>
     n = sum_list (map emission_count ems)"
proof (induction source arbitrary: i st ems n st1)
  case Nil
  then show ?case by simp
next
  case (Cons next_credentials rest)
  from Cons.prems obtain creds w1 ems' n' where
      "next_credentials (snd st) = (Inr creds, w1)"
    and ok: "raised (load_list env c creds True (fst st, w1)) = None"
    and rest: "rotating_passes env c rest (Suc i)
                 (final (load_list env c creds True (fst st, w1))) = (ems', None, n', st1)"
    and ems: "ems = Materialized (emitted (load_list env c creds True (fst st, w1))) # ems'"
    and n: "n = length (emitted (load_list env c creds True (fst st, w1))) + n'"
    by (auto simp: Let_def split: sum.splits prod.splits option.splits)
  from Cons.IH [OF rest] have "n' = sum_list (map emission_count ems')" .
  with ems n show ?case by simp
qed


lemma load_list_empty_first_page:
  assumes "read_controls c = Inr k"
    and "list_iteration env c k iam (list_start st) = Page result st2"
    and "\<not> truthy result"
  shows "load_list env c iam skip st =
     \<lparr>emitted = [],
      raised = (if skip then None else Some ManagedConnectorListGetEmptyInBeginningException),
      final = st2, bodies = 1\<rparr>"
proof -
  have "0 < MAX_ITERATIONS" by (simp add: MAX_ITERATIONS_def)
  from pagination_loop_empty_page [OF this assms(2,3), of "load_list_body env c" skip] assms(1)
  show ?thesis by (simp add: load_list_def get_list_of_items_def)
qed

lemma example_page:
  assumes auth: "list_authorization example_env c iam example_spec (ctx, t # ts)
                   = (Inr (PDict hs, PDict ps, PNone), (ctx, t # ts))"
    and keys: "list_all (\<lambda>kv. is_str (fst kv)) hs" "list_all (\<lambda>kv. is_str (fst kv)) ps"
    and parse: "example_parse t = Inr (PDict [(PStr ''items'', PList recs)])"
  shows "list_iteration example_env c example_controls iam (ctx, t # ts) =
     Page (PList recs)
       (update_rendering_context ctx
          [(''list_response'', PDict [(PStr ''items'', PList recs)]),
           (''list_response_headers'', PDict []), (''list_response_links'', PDict [])], ts)"
  using auth keys parse
  by (simp add: list_iteration_def pagination_extras_def example_controls_def
        fetch_list_response_def apply_authorization_def update_kwargs_def shim_check_def
        Let_def example_env_fields example_perform_def example_render_to_native_def
        update_rendering_context_def get_default_def)

lemma iam_connector_controls: "read_controls iam_connector = Inr example_controls"
  by (simp add: read_controls_def iam_connector_def example_connector_def example_controls_def
        get_default_def)

lemma iam_connector_default_authorization:
  "list_authorization example_env iam_connector PNone spec st = (Inr (PDict [], PDict [], PNone), st)"
  by (simp add: list_authorization_def attach_saas_authorization_def iam_connector_def
        example_connector_def example_env_def secret_parts_def get_default_def)

lemma iam_connector_role_authorization:
  "list_authorization example_env iam_connector (PDict [(PStr ''role'', PStr ''auditor'')]) spec st
     = (Inr (PDict [], PDict [], PNone), st)"
  by (simp add: list_authorization_def update_kwargs_def example_env_def secret_parts_def)

lemma example_parse_none: "example_parse ''none'' = Inr (PDict [(PStr ''items'', PList [])])"
  by (simp add: example_parse_def)

lemma iam_connector_default_page_none:
  "list_iteration example_env iam_connector example_controls PNone (ctx, ''none'' # ts) =
     Page (PList [])
       (update_rendering_context ctx
          [(''list_response'', PDict [(PStr ''items'', PList [])]),
           (''list_response_headers'', PDict []), (''list_response_links'', PDict [])], ts)"
  by (rule example_page [OF iam_connector_default_authorization _ _ example_parse_none]) simp_all

text \<open>
  C4. Every rotating pass runs with the tolerance for an empty start on: a pass whose
  first page is empty ends without an exception, is handed on as an empty list, and
  the loop goes on with the next credential set. When the rotating passes have all
  ended without an exception, \<open>iam_records\<close> is the number of items that they yielded
  together, and the default pass runs with the tolerance on if and only if that number
  is positive: on an empty first page of the default pass the whole run ends without
  an exception when it is, and with the empty-at-start outcome when it is zero.
\<close>

theorem default_pass_tolerance:
  "(\<forall>creds w1 k result st2.
        next_credentials (snd st) = (Inr creds, w1) \<and> read_controls c = Inr k
      \<and> list_iteration env c k creds (list_start (fst st, w1)) = Page result st2
      \<and> \<not> truthy result
      \<longrightarrow> rotating_passes env c (next_credentials # rest) iteration st =
            (case rotating_passes env c rest (Suc iteration) st2 of
               (ems, exc, n, s) \<Rightarrow> (Materialized [] # ems, exc, n, s)))
   \<and> (\<forall>cid ems iam_records st1.
        py_subscript (saas_authorization c) ''credential_id'' = Inr cid
      \<and> rotating_passes env c source 0 st = (ems, None, iam_records, st1)
      \<longrightarrow> iam_records = sum_list (map emission_count ems)
        \<and> load_iam_list env c source st =
            (let r = load_list env c PNone (0 < sum_list (map emission_count ems)) st1
             in \<lparr>emitted = ems @ map One (emitted r), raised = raised r, final = final r\<rparr>)
        \<and> (\<forall>k result st2.
              read_controls c = Inr k
            \<and> list_iteration env c k PNone (list_start st1) = Page result st2
            \<and> \<not> truthy result
            \<longrightarrow> load_iam_list env c source st =
                  \<lparr>emitted = ems,
                   raised = (if 0 < sum_list (map emission_count ems) then None
                             else Some ManagedConnectorListGetEmptyInBeginningException),
                   final = st2\<rparr>))"
proof (intro conjI allI impI)
  fix creds w1 k result st2
  assume h: "next_credentials (snd st) = (Inr creds, w1) \<and> read_controls c = Inr k
      \<and> list_iteration env c k creds (list_start (fst st, w1)) = Page result st2
      \<and> \<not> truthy result"
  then have "load_list env c creds True (fst st, w1) =
     \<lparr>emitted = [], raised = None, final = st2, bodies = 1\<rparr>"
    using load_list_empty_first_page [of c k env creds "(fst st, w1)" result st2 True] by simp
  with h show "rotating_passes env c (next_credentials # rest) iteration st =
            (case rotating_passes env c rest (Suc iteration) st2 of
               (ems, exc, n, s) \<Rightarrow> (Materialized [] # ems, exc, n, s))"
    by (simp add: Let_def split: prod.splits)
next
  fix cid ems iam_records st1
  assume h: "py_subscript (saas_authorization c) ''credential_id'' = Inr cid
      \<and> rotating_passes env c source 0 st = (ems, None, iam_records, st1)"
  then show count: "iam_records = sum_list (map emission_count ems)"
    using rotating_passes_count by blast
  from h count show run: "load_iam_list env c source st =
            (let r = load_list env c PNone (0 < sum_list (map emission_count ems)) st1
             in \<lparr>emitted = ems @ map One (emitted r), raised = raised r, final = final r\<rparr>)"
    by (simp add: load_iam_list_def)
  fix k result st2
  assume p: "read_controls c = Inr k
            \<and> list_iteration env c k PNone (list_start st1) = Page result st2
            \<and> \<not> truthy result"
  then have "load_list env c PNone (0 < sum_list (map emission_count ems)) st1 =
     \<lparr>emitted = [],
      raised = (if 0 < sum_list (map emission_count ems) then None
                else Some ManagedConnectorListGetEmptyInBeginningException),
      final = st2, bodies = 1\<rparr>"
    using load_list_empty_first_page
            [of c k env PNone st1 result st2 "0 < sum_list (map emission_count ems)"]
    by simp
  with run show "load_iam_list env c source st =
                  \<lparr>emitted = ems,
                   raised = (if 0 < sum_list (map emission_count ems) then None
                             else Some ManagedConnectorListGetEmptyInBeginningException),
                   final = st2\<rparr>"
    by (simp add: Let_def)
qed

text \<open>
  One credential set. On an API that has nothing, the rotating pass is tolerated and
  the default pass ends with the empty-at-start outcome; on an API that has two records
  for the rotating pass, the empty default pass ends the run without an exception.
\<close>

theorem default_pass_tolerance_witness:
  "rotating_passes example_env iam_connector one_role 0 (Map.empty, [''none'', ''none''])
     = ([Materialized []], None, 0,
        (update_rendering_context (fst (list_start (Map.empty, [''none'', ''none''])))
           [(''list_response'', PDict [(PStr ''items'', PList [])]),
            (''list_response_headers'', PDict []), (''list_response_links'', PDict [])],
         [''none'']))
   \<and> emitted (load_iam_list example_env iam_connector one_role (Map.empty, [''none'', ''none'']))
       = [Materialized []]
   \<and> raised (load_iam_list example_env iam_connector one_role (Map.empty, [''none'', ''none'']))
       = Some ManagedConnectorListGetEmptyInBeginningException
   \<and> emitted (load_iam_list example_env iam_connector one_role
                (Map.empty, [''two'', ''none'', ''none'']))
       = [Materialized [Enriched (PDict [(PStr ''id'', PInt 1)]),
                        Enriched (PDict [(PStr ''id'', PInt 2)])]]
   \<and> raised (load_iam_list example_env iam_connector one_role
                (Map.empty, [''two'', ''none'', ''none''])) = None"
proof -
  let ?creds = "PDict [(PStr ''role'', PStr ''auditor'')]"
  let ?next = "\<lambda>w::string list. (Inr ?creds :: error + pyval, w)"
  let ?s0 = "(Map.empty, [''none'', ''none'']) :: ctx \<times> string list"
  let ?ctx0 = "fst (list_start ?s0)"
  let ?s1 = "(update_rendering_context ?ctx0
           [(''list_response'', PDict [(PStr ''items'', PList [])]),
            (''list_response_headers'', PDict []), (''list_response_links'', PDict [])],
         [''none''])"
  have empty: "\<not> truthy (PList [])" by simp
  have cid: "py_subscript (saas_authorization iam_connector) ''credential_id'' = Inr (PStr ''cred'')"
    by (simp add: iam_connector_def)
  text \<open>The rotating pass on an empty first page.\<close>
  have start: "list_start (fst ?s0, [''none'', ''none'']) = (?ctx0, [''none'', ''none''])"
    by (simp add: list_start_def)
  have page0: "list_iteration example_env iam_connector example_controls ?creds
                 (list_start (fst ?s0, [''none'', ''none''])) = Page (PList []) ?s1"
    unfolding start
    by (rule example_page [OF iam_connector_role_authorization _ _ example_parse_none]) simp_all
  have step: "?next (snd ?s0) = (Inr ?creds, [''none'', ''none''])" by simp
  have "rotating_passes example_env iam_connector [?next] 0 ?s0 =
            (case rotating_passes example_env iam_connector [] (Suc 0) ?s1 of
               (ems, exc, n, s) \<Rightarrow> (Materialized [] # ems, exc, n, s))"
    by (rule default_pass_tolerance
               [of ?next ?s0 iam_connector example_env "[]" 0 one_role,
                THEN conjunct1, rule_format,
                OF conjI [OF step conjI [OF iam_connector_controls conjI [OF page0 empty]]]])
  then have rotating: "rotating_passes example_env iam_connector one_role 0 ?s0
                         = ([Materialized []], None, 0, ?s1)"
    by (simp add: one_role_def)
  text \<open>The default pass after it, again on an empty first page.\<close>
  obtain s2 where page1: "list_iteration example_env iam_connector example_controls PNone
                            (list_start ?s1) = Page (PList []) s2"
    by (simp add: list_start_def iam_connector_default_page_none)
  note default_pass =
    default_pass_tolerance [THEN conjunct2, rule_format, THEN conjunct2, THEN conjunct2, rule_format]
  have none_run: "load_iam_list example_env iam_connector one_role ?s0 =
          \<lparr>emitted = [Materialized []],
           raised = (if 0 < sum_list (map emission_count [Materialized []]) then None
                     else Some ManagedConnectorListGetEmptyInBeginningException),
           final = s2\<rparr>"
    by (rule default_pass
               [OF conjI [OF cid rotating] conjI [OF iam_connector_controls conjI [OF page1 empty]]])
  text \<open>A rotating pass with two records, then the default pass on an empty first page.\<close>
  let ?t0 = "(Map.empty, [''two'', ''none'', ''none'']) :: ctx \<times> string list"
  let ?two = "[Materialized [Enriched (PDict [(PStr ''id'', PInt 1)]),
                             Enriched (PDict [(PStr ''id'', PInt 2)])]]"
  have p1: "fst (rotating_passes example_env iam_connector one_role 0 ?t0) = ?two"
    by code_simp
  have p2: "fst (snd (rotating_passes example_env iam_connector one_role 0 ?t0)) = None"
    by code_simp
  have p3: "fst (snd (snd (rotating_passes example_env iam_connector one_role 0 ?t0))) = 2"
    by code_simp
  have p4: "snd (snd (snd (snd (rotating_passes example_env iam_connector one_role 0 ?t0))))
              = [''none'']"
    by code_simp
  obtain ctx1 where rotating2: "rotating_passes example_env iam_connector one_role 0 ?t0
                                  = (?two, None, 2, (ctx1, [''none'']))"
    using p1 p2 p3 p4
    by (cases "rotating_passes example_env iam_connector one_role 0 ?t0") auto
  obtain s3 where page2: "list_iteration example_env iam_connector example_controls PNone
                            (list_start (ctx1, [''none''])) = Page (PList []) s3"
    by (simp add: list_start_def iam_connector_default_page_none)
  have two_run: "load_iam_list example_env iam_connector one_role ?t0 =
          \<lparr>emitted = ?two,
           raised = (if 0 < sum_list (map emission_count ?two) then None
                     else Some ManagedConnectorListGetEmptyInBeginningException),
           final = s3\<rparr>"
    by (rule default_pass
               [OF conjI [OF cid rotating2] conjI [OF iam_connector_controls conjI [OF page2 empty]]])
  from rotating none_run two_run show ?thesis by simp
qed






end
